theory Spec2Isabelle
  imports Main "HOL-Library.Word" "HOL-Library.Sublist" "HOL-Library.AList"
begin

section \<open>JavaScript values\<close>

text \<open>
  The values that flow through the cache: what \<^verbatim>\<open>JSON.parse\<close> returns and what
  \<^verbatim>\<open>JSON.stringify\<close> accepts. \<open>JNull\<close> is JavaScript's \<^verbatim>\<open>null\<close>, which is also the
  "absent" sentinel of the store client. \<^verbatim>\<open>undefined\<close> only arises from reading a
  missing property and is \<open>None\<close> of \<open>json option\<close>. Objects keep their own properties
  in insertion order. Numbers are integers: the only numbers the program reads or writes
  are status codes.
\<close>

datatype json =
    JNull
  | JBool bool
  | JNum int
  | JStr string
  | JArr "json list"
  | JObj "(string \<times> json) list"

type_synonym bytes = "8 word list"

text \<open>
  A thrown value (or the reason of a rejected promise). Libraries throw \<^verbatim>\<open>Error\<close>
  objects, which carry a message; user code can throw any value, \<^verbatim>\<open>undefined\<close> included
  (\<^verbatim>\<open>Promise.reject()\<close>).
\<close>

datatype js_exn = ErrorObj string | Thrown "json option"

text \<open>\<^verbatim>\<open>if (v)\<close>: the values that count as true.\<close>

fun truthy :: "json \<Rightarrow> bool" where
  "truthy JNull = False"
| "truthy (JBool b) = b"
| "truthy (JNum n) = (n \<noteq> 0)"
| "truthy (JStr s) = (s \<noteq> [])"
| "truthy (JArr xs) = True"
| "truthy (JObj kvs) = True"

fun truthy_opt :: "json option \<Rightarrow> bool" where
  "truthy_opt None = False"
| "truthy_opt (Some v) = truthy v"

text \<open>
  \<^verbatim>\<open>v.k\<close> for the property names the program reads (\<^verbatim>\<open>s\<close>, \<^verbatim>\<open>h\<close>, \<^verbatim>\<open>b\<close>, \<^verbatim>\<open>message\<close>):
  a \<^verbatim>\<open>TypeError\<close> on \<^verbatim>\<open>null\<close> and \<^verbatim>\<open>undefined\<close>, the own property of an object, and
  \<^verbatim>\<open>undefined\<close> on every other value (no primitive wrapper or array has a property of
  one of these names).
\<close>

fun get_prop :: "json option \<Rightarrow> string \<Rightarrow> js_exn + json option" where
  "get_prop None k = Inl (ErrorObj ''Cannot read properties of undefined'')"
| "get_prop (Some JNull) k = Inl (ErrorObj ''Cannot read properties of null'')"
| "get_prop (Some (JObj kvs)) k = Inr (map_of kvs k)"
| "get_prop (Some v) k = Inr None"

text \<open>\<^verbatim>\<open>err.message\<close> in a \<^verbatim>\<open>catch (err)\<close> block.\<close>

fun err_message :: "js_exn \<Rightarrow> js_exn + json option" where
  "err_message (ErrorObj m) = Inr (Some (JStr m))"
| "err_message (Thrown v) = get_prop v ''message''"

text \<open>
  The Web API \<^verbatim>\<open>Request\<close> a handler receives, and the \<^verbatim>\<open>init\<close> object it is built
  from. A \<^verbatim>\<open>Headers\<close> object is a map from names in lower case to values.
\<close>

datatype web_body = Text string | Binary bytes

record web_request =
  url :: string
  request_method :: string
  request_headers :: "string \<rightharpoonup> string"
  request_body :: "web_body option"

record request_init =
  init_method :: string
  init_headers :: "string \<rightharpoonup> string"
  init_body :: "web_body option"

section \<open>The platform\<close>

text \<open>
  Library functions the program calls and does not define. They are parameters of the
  model: every theorem holds for whatever they compute, unless it names a law of theirs
  as a hypothesis. \<open>None\<close> is a thrown exception for \<open>JSON_parse\<close> (a \<^verbatim>\<open>SyntaxError\<close>) and
  \<open>Buffer_from_base64\<close> (the \<^verbatim>\<open>TypeError\<close> of \<^verbatim>\<open>Buffer.from(v, 'base64')\<close> on a value
  it does not accept; its argument is \<open>None\<close> for \<^verbatim>\<open>undefined\<close>); the \<open>_error\<close> fields
  give the message of the error the call throws, if it throws. \<open>new_Request url init\<close> is
  \<^verbatim>\<open>new Request(url, init)\<close>: the request object (with the URL as the constructor
  normalises it), or the \<^verbatim>\<open>TypeError\<close> it throws on a URL that does not parse or a method
  it forbids. \<open>Buffer_toString\<close> is \<^verbatim>\<open>data.toString()\<close>, the UTF-8 decoding of the bytes.
  Strings are held as the bytes of their UTF-8 encoding.
\<close>

record platform =
  JSON_parse :: "string \<Rightarrow> json option"
  JSON_stringify :: "json \<Rightarrow> string"
  toString_base64 :: "bytes \<Rightarrow> string"
  Buffer_from_base64 :: "json option \<Rightarrow> bytes option"
  setHeader_error :: "string \<Rightarrow> json \<Rightarrow> string option"
  writeHead_error :: "json \<Rightarrow> string option"
  new_IORedis_error :: "string \<Rightarrow> string option"
  Buffer_toString :: "bytes \<Rightarrow> string"
  Headers_set_error :: "string \<Rightarrow> string \<Rightarrow> string option"
  new_Request :: "string \<Rightarrow> request_init \<Rightarrow> js_exn + web_request"

section \<open>The process and the store server\<close>

text \<open>
  What \<^verbatim>\<open>getCacheTTL\<close> returns: a number of seconds, or (for a path that names an
  inherited property of \<^verbatim>\<open>Object.prototype\<close>) that inherited value.
\<close>

datatype ttl_value = Seconds nat | Inherited string

fun truthy_ttl :: "ttl_value option \<Rightarrow> bool" where
  "truthy_ttl None = False"
| "truthy_ttl (Some (Seconds n)) = (n \<noteq> 0)"
| "truthy_ttl (Some (Inherited k)) = True"

datatype ioredis = IORedis string

text \<open>The class \<^verbatim>\<open>Redis\<close> has one field, \<^verbatim>\<open>this._client\<close>.\<close>

record Redis =
  this_client :: "ioredis option"

text \<open>
  The state the functions read and write: the environment variables, the module-level
  variables of the three modules, and the store server behind the connection (each key
  with its value and the second at which it expires, if it does). \<open>transport_up\<close> says
  whether a command sent now is answered; when it is not, ioredis rejects the command
  with an \<^verbatim>\<open>Error\<close>.
\<close>

record world =
  REDIS_URL :: "string option"
  PORT :: "string option"
  transport_up :: bool
  db :: "string \<rightharpoonup> (string \<times> nat option)"
  clock :: nat
  client :: "ioredis option"
  initFailed :: bool
  cacheRedis :: "Redis option"
  cacheRedisInitFailed :: bool
  redis :: "Redis option"
  redisInitFailed :: bool

text \<open>An environment variable is true when it is set and not empty.\<close>

fun truthy_env :: "string option \<Rightarrow> bool" where
  "truthy_env None = False"
| "truthy_env (Some s) = (s \<noteq> [])"

definition live :: "world \<Rightarrow> string \<Rightarrow> string option" where
  "live w key =
     (case db w key of
        None \<Rightarrow> None
      | Some (v, None) \<Rightarrow> Some v
      | Some (v, Some t) \<Rightarrow> if clock w < t then Some v else None)"

text \<open>The commands of the connection: \<^verbatim>\<open>GET\<close>, \<^verbatim>\<open>SET [EX n]\<close>, \<^verbatim>\<open>MGET\<close>.\<close>

definition ioredis_get :: "world \<Rightarrow> string \<Rightarrow> js_exn + string option" where
  "ioredis_get w key =
     (if transport_up w then Inr (live w key) else Inl (ErrorObj ''Connection is closed.''))"

definition ioredis_set ::
  "world \<Rightarrow> string \<Rightarrow> string \<Rightarrow> ttl_value option \<Rightarrow> (js_exn + unit) \<times> world" where
  "ioredis_set w key v expiry =
     (if \<not> transport_up w then (Inl (ErrorObj ''Connection is closed.''), w)
      else
        (case expiry of
           None \<Rightarrow> (Inr (), w\<lparr>db := (db w)(key \<mapsto> (v, None))\<rparr>)
         | Some (Seconds n) \<Rightarrow>
             if n = 0 then (Inl (ErrorObj ''ERR invalid expire time''), w)
             else (Inr (), w\<lparr>db := (db w)(key \<mapsto> (v, Some (clock w + n)))\<rparr>)
         | Some (Inherited k) \<Rightarrow>
             (Inl (ErrorObj ''ERR value is not an integer or out of range''), w)))"

definition ioredis_mget :: "world \<Rightarrow> string list \<Rightarrow> js_exn + string option list" where
  "ioredis_mget w ks =
     (if \<not> transport_up w then Inl (ErrorObj ''Connection is closed.'')
      else if ks = [] then Inl (ErrorObj ''ERR wrong number of arguments'')
      else Inr (map (live w) ks))"

section \<open>The key-value store client\<close>

text \<open>\<^verbatim>\<open>getClient()\<close>: the memoised connection of the module.\<close>

definition getClient :: "platform \<Rightarrow> world \<Rightarrow> ioredis option \<times> world" where
  "getClient P w =
     (case client w of
        Some c \<Rightarrow> (Some c, w)
      | None \<Rightarrow>
          if initFailed w then (None, w)
          else
            (case REDIS_URL w of
               None \<Rightarrow> (None, w)
             | Some redisUrl \<Rightarrow>
                 if redisUrl = [] then (None, w)
                 else
                   (case new_IORedis_error P redisUrl of
                      Some msg \<Rightarrow> (None, w\<lparr>initFailed := True\<rparr>)
                    | None \<Rightarrow>
                        (Some (IORedis redisUrl), w\<lparr>client := Some (IORedis redisUrl)\<rparr>))))"

text \<open>\<^verbatim>\<open>new Redis()\<close>: the constructor only calls \<^verbatim>\<open>getClient()\<close>.\<close>

definition new_Redis :: "platform \<Rightarrow> world \<Rightarrow> (js_exn + Redis) \<times> world" where
  "new_Redis P w = (case getClient P w of (c, w') \<Rightarrow> (Inr \<lparr>this_client = c\<rparr>, w'))"

text \<open>
  \<^verbatim>\<open>Redis.get(key)\<close>. The result is \<open>Inl\<close> when the method throws: the only place
  where it could is the \<^verbatim>\<open>err.message\<close> of its \<^verbatim>\<open>catch\<close> block.
\<close>

definition Redis_get :: "platform \<Rightarrow> Redis \<Rightarrow> world \<Rightarrow> string \<Rightarrow> js_exn + json" where
  "Redis_get P this w key =
     (case this_client this of
        None \<Rightarrow> Inr JNull
      | Some c \<Rightarrow>
          (case ioredis_get w key of
             Inl err \<Rightarrow> (case err_message err of Inl e \<Rightarrow> Inl e | Inr m \<Rightarrow> Inr JNull)
           | Inr None \<Rightarrow> Inr JNull
           | Inr (Some raw) \<Rightarrow>
               (case JSON_parse P raw of Some v \<Rightarrow> Inr v | None \<Rightarrow> Inr (JStr raw))))"

record set_options =
  ex :: "ttl_value option"

fun options_ex :: "set_options option \<Rightarrow> ttl_value option" where
  "options_ex None = None"
| "options_ex (Some opts) = ex opts"

fun serialize :: "platform \<Rightarrow> json \<Rightarrow> string" where
  "serialize P (JStr s) = s"
| "serialize P v = JSON_stringify P v"

definition Redis_set ::
  "platform \<Rightarrow> Redis \<Rightarrow> world \<Rightarrow> string \<Rightarrow> json \<Rightarrow> set_options option \<Rightarrow> (js_exn + json) \<times> world"
  where
  "Redis_set P this w key val opts =
     (case this_client this of
        None \<Rightarrow> (Inr JNull, w)
      | Some c \<Rightarrow>
          (case ioredis_set w key (serialize P val)
                  (if truthy_ttl (options_ex opts) then options_ex opts else None) of
             (Inl err, w') \<Rightarrow>
               (case err_message err of Inl e \<Rightarrow> (Inl e, w') | Inr m \<Rightarrow> (Inr JNull, w'))
           | (Inr u, w') \<Rightarrow> (Inr (JStr ''OK''), w')))"

text \<open>
  \<^verbatim>\<open>Redis.mget(...keys)\<close>: each argument is a key or an array of keys, and
  \<^verbatim>\<open>keys.flat()\<close> flattens one level.
\<close>

datatype key_arg = Key string | Keys "string list"

fun flat1 :: "key_arg \<Rightarrow> string list" where
  "flat1 (Key k) = [k]"
| "flat1 (Keys ks) = ks"

definition flat :: "key_arg list \<Rightarrow> string list" where
  "flat keys = concat (map flat1 keys)"

definition parse_or_raw :: "platform \<Rightarrow> string option \<Rightarrow> json" where
  "parse_or_raw P raw =
     (case raw of
        None \<Rightarrow> JNull
      | Some r \<Rightarrow> (case JSON_parse P r of Some v \<Rightarrow> v | None \<Rightarrow> JStr r))"

definition Redis_mget :: "platform \<Rightarrow> Redis \<Rightarrow> world \<Rightarrow> key_arg list \<Rightarrow> js_exn + json list" where
  "Redis_mget P this w keys =
     (case this_client this of
        None \<Rightarrow> Inr (map (\<lambda>k. JNull) keys)
      | Some c \<Rightarrow>
          (case ioredis_mget w (flat keys) of
             Inl err \<Rightarrow>
               (case err_message err of
                  Inl e \<Rightarrow> Inl e
                | Inr m \<Rightarrow> Inr (map (\<lambda>k. JNull) (flat keys)))
           | Inr results \<Rightarrow> Inr (map (parse_or_raw P) results)))"

section \<open>The cache helper module\<close>

definition getRedis :: "platform \<Rightarrow> world \<Rightarrow> Redis option \<times> world" where
  "getRedis P w =
     (case redis w of
        Some r \<Rightarrow> (Some r, w)
      | None \<Rightarrow>
          if redisInitFailed w then (None, w)
          else if \<not> truthy_env (REDIS_URL w) then (None, w)
          else
            (case new_Redis P w of
               (Inr r, w') \<Rightarrow> (Some r, w'\<lparr>redis := Some r\<rparr>)
             | (Inl err, w') \<Rightarrow> (None, w'\<lparr>redisInitFailed := True\<rparr>)))"

definition getCachedJson :: "platform \<Rightarrow> world \<Rightarrow> string \<Rightarrow> (js_exn + json) \<times> world" where
  "getCachedJson P w key =
     (case getRedis P w of
        (None, w1) \<Rightarrow> (Inr JNull, w1)
      | (Some redisClient, w1) \<Rightarrow>
          (case Redis_get P redisClient w1 key of
             Inl err \<Rightarrow> (case err_message err of Inl e \<Rightarrow> (Inl e, w1) | Inr m \<Rightarrow> (Inr JNull, w1))
           | Inr v \<Rightarrow> (Inr v, w1)))"

definition setCachedJson ::
  "platform \<Rightarrow> world \<Rightarrow> string \<Rightarrow> json \<Rightarrow> ttl_value option \<Rightarrow> (js_exn + bool) \<times> world" where
  "setCachedJson P w key val ttlSeconds =
     (case getRedis P w of
        (None, w1) \<Rightarrow> (Inr False, w1)
      | (Some redisClient, w1) \<Rightarrow>
          (case Redis_set P redisClient w1 key val (Some \<lparr>ex = ttlSeconds\<rparr>) of
             (Inl err, w2) \<Rightarrow>
               (case err_message err of Inl e \<Rightarrow> (Inl e, w2) | Inr m \<Rightarrow> (Inr False, w2))
           | (Inr r, w2) \<Rightarrow> (Inr True, w2)))"

section \<open>The route cache policy\<close>

text \<open>The table \<^verbatim>\<open>CACHE_TTLS\<close>, in the order of its properties.\<close>

definition CACHE_TTLS :: "(string \<times> nat) list" where
  "CACHE_TTLS =
    [(''/api/earthquakes'', 60),
     (''/api/opensky'', 60),
     (''/api/faa-status'', 120),
     (''/api/ais-snapshot'', 120),
     (''/api/hackernews'', 300),
     (''/api/gdelt-doc'', 300),
     (''/api/gdelt-geo'', 300),
     (''/api/finnhub'', 300),
     (''/api/yahoo-finance'', 300),
     (''/api/stock-index'', 300),
     (''/api/coingecko'', 300),
     (''/api/polymarket'', 300),
     (''/api/stablecoin-markets'', 300),
     (''/api/cloudflare-outages'', 300),
     (''/api/rss-proxy'', 300),
     (''/api/theater-posture'', 300),
     (''/api/firms-fires'', 600),
     (''/api/risk-scores'', 600),
     (''/api/macro-signals'', 600),
     (''/api/nga-warnings'', 600),
     (''/api/etf-flows'', 600),
     (''/api/github-trending'', 600),
     (''/api/acled'', 900),
     (''/api/acled-conflict'', 900),
     (''/api/ucdp'', 900),
     (''/api/hapi'', 900),
     (''/api/temporal-baseline'', 900),
     (''/api/arxiv'', 1800),
     (''/api/tech-events'', 1800),
     (''/api/fred-data'', 3600),
     (''/api/worldbank'', 3600),
     (''/api/fwdstart'', 1800)]"

definition DEFAULT_TTL :: nat where
  "DEFAULT_TTL = 120"

definition NO_CACHE :: "string list" where
  "NO_CACHE =
    [''/api/debug-env'',
     ''/api/cache-telemetry'',
     ''/api/service-status'',
     ''/api/classify-event'',
     ''/api/groq-summarize'',
     ''/api/openrouter-summarize'',
     ''/api/country-intel'',
     ''/api/og-story'',
     ''/api/story'']"

text \<open>
  \<^verbatim>\<open>CACHE_TTLS\<close> is an object literal, so \<^verbatim>\<open>CACHE_TTLS[path]\<close> also finds the properties
  every object inherits from \<^verbatim>\<open>Object.prototype\<close>; their values are functions and objects,
  all of them truthy.
\<close>

definition Object_prototype :: "string list" where
  "Object_prototype =
    [''constructor'', ''__defineGetter__'', ''__defineSetter__'', ''hasOwnProperty'',
     ''__lookupGetter__'', ''__lookupSetter__'', ''isPrototypeOf'',
     ''propertyIsEnumerable'', ''toString'', ''valueOf'', ''__proto__'',
     ''toLocaleString'']"

definition CACHE_TTLS_at :: "string \<Rightarrow> ttl_value option" where
  "CACHE_TTLS_at path =
     (case map_of CACHE_TTLS path of
        Some n \<Rightarrow> Some (Seconds n)
      | None \<Rightarrow> if path \<in> set Object_prototype then Some (Inherited path) else None)"

text \<open>
  The loop over \<^verbatim>\<open>Object.entries(CACHE_TTLS)\<close>: the first entry whose key the path
  starts with.
\<close>

fun first_prefix :: "(string \<times> nat) list \<Rightarrow> string \<Rightarrow> nat option" where
  "first_prefix [] path = None"
| "first_prefix ((pre, ttl) # entries) path =
     (if prefix pre path then Some ttl else first_prefix entries path)"

definition getCacheTTL :: "string \<Rightarrow> ttl_value" where
  "getCacheTTL path =
     (if truthy_ttl (CACHE_TTLS_at path) then
        (case CACHE_TTLS_at path of
           Some v \<Rightarrow> v
         | None \<Rightarrow> Seconds DEFAULT_TTL)
      else
        (case first_prefix CACHE_TTLS path of
           Some ttl \<Rightarrow> Seconds ttl
         | None \<Rightarrow> Seconds DEFAULT_TTL))"

text \<open>
  The resolution in the words of the specification: the entry on an exact match, else the
  entry of the longest route prefix that matches, else 120 seconds.
\<close>

fun longest :: "(string \<times> nat) list \<Rightarrow> (string \<times> nat) option" where
  "longest [] = None"
| "longest (e # es) =
     (case longest es of
        None \<Rightarrow> Some e
      | Some f \<Rightarrow> if length (fst e) < length (fst f) then Some f else Some e)"

definition longest_prefix_ttl :: "string \<Rightarrow> nat option" where
  "longest_prefix_ttl path =
     map_option snd (longest (filter (\<lambda>e. prefix (fst e) path) CACHE_TTLS))"

definition policy_ttl :: "string \<Rightarrow> nat" where
  "policy_ttl path =
     (case map_of CACHE_TTLS path of
        Some ttl \<Rightarrow> ttl
      | None \<Rightarrow> (case longest_prefix_ttl path of Some ttl \<Rightarrow> ttl | None \<Rightarrow> 120))"

text \<open>
  A table in which a key that is a prefix of another key has the same value: in such a
  table all entries that match one path agree.
\<close>

definition agreeing :: "(string \<times> nat) list \<Rightarrow> bool" where
  "agreeing tab =
     list_all (\<lambda>e. list_all (\<lambda>f. \<not> prefix (fst e) (fst f) \<or> snd e = snd f) tab) tab"

section \<open>Requests and responses\<close>

text \<open>
  The Express request, as far as the adapter reads it (\<open>req_method\<close> is \<^verbatim>\<open>req.method\<close>).
  A header of \<^verbatim>\<open>req.headers\<close> is a string, an array of strings or \<^verbatim>\<open>undefined\<close>;
  \<^verbatim>\<open>req.body\<close> is what the body parsers left: a string, a \<^verbatim>\<open>Buffer\<close> or a parsed value.
\<close>

datatype header_value = Single string | Multi "string list"

datatype parsed_body = BodyString string | BodyBuffer bytes | BodyValue json

record express_req =
  req_method :: string
  originalUrl :: string
  path :: string
  protocol :: "string option"
  get_host :: "string option"
  req_headers :: "(string \<times> header_value option) list"
  req_body :: "parsed_body option"

text \<open>
  The \<^verbatim>\<open>Response\<close> a handler returns: \<open>response_headers\<close> are the pairs
  \<^verbatim>\<open>headers.forEach\<close> visits, in its order (a name that was appended more than once, as
  \<^verbatim>\<open>set-cookie\<close> is, may be visited more than once), and \<open>arrayBuffer\<close> is the outcome of
  \<^verbatim>\<open>await webResponse.arrayBuffer()\<close>: the bytes of the body, or the error of a body that
  cannot be read. A handler is a function of the request that returns a response or
  throws.
\<close>

record web_response =
  status :: int
  response_headers :: "(string \<times> string) list"
  arrayBuffer :: "js_exn + bytes"

type_synonym edge_handler = "web_request \<Rightarrow> js_exn + web_response"

text \<open>\<^verbatim>\<open>toLowerCase()\<close> on the ASCII letters of a header name.\<close>

definition lower_char :: "char \<Rightarrow> char" where
  "lower_char c =
     (if 65 \<le> (of_char c :: nat) \<and> (of_char c :: nat) \<le> 90
      then char_of ((of_char c :: nat) + 32) else c)"

definition toLowerCase :: "string \<Rightarrow> string" where
  "toLowerCase s = map lower_char s"

fun join :: "string list \<Rightarrow> string \<Rightarrow> string" where
  "join [] sep = []"
| "join [x] sep = x"
| "join (x # y # ys) sep = x @ sep @ join (y # ys) sep"

fun truthy_header :: "header_value option \<Rightarrow> bool" where
  "truthy_header None = False"
| "truthy_header (Some (Single s)) = (s \<noteq> [])"
| "truthy_header (Some (Multi xs)) = True"

fun header_text :: "header_value option \<Rightarrow> string" where
  "header_text None = []"
| "header_text (Some (Single s)) = s"
| "header_text (Some (Multi xs)) = join xs '', ''"

text \<open>
  The loop of \<^verbatim>\<open>headers.set(key, value)\<close> calls; a call that throws ends the function.
\<close>

fun copy_headers ::
  "platform \<Rightarrow> (string \<times> header_value option) list \<Rightarrow> (string \<rightharpoonup> string)
     \<Rightarrow> js_exn + (string \<rightharpoonup> string)"
  where
  "copy_headers P [] hs = Inr hs"
| "copy_headers P ((key, v) # rest) hs =
     (if truthy_header v then
        (case Headers_set_error P key (header_text v) of
           Some msg \<Rightarrow> Inl (ErrorObj msg)
         | None \<Rightarrow> copy_headers P rest (hs(toLowerCase key \<mapsto> header_text v)))
      else copy_headers P rest hs)"

text \<open>\<^verbatim>\<open>const PORT = process.env.PORT || 3000\<close>, as the text the URL template prints.\<close>

definition server_PORT :: "world \<Rightarrow> string" where
  "server_PORT w = (case PORT w of None \<Rightarrow> ''3000'' | Some p \<Rightarrow> if p = [] then ''3000'' else p)"

fun or_text :: "string option \<Rightarrow> string \<Rightarrow> string" where
  "or_text None d = d"
| "or_text (Some s) d = (if s = [] then d else s)"

definition expressToWebRequest :: "platform \<Rightarrow> world \<Rightarrow> express_req \<Rightarrow> js_exn + web_request"
  where
  "expressToWebRequest P w req =
     (case copy_headers P (req_headers req) Map.empty of
        Inl e \<Rightarrow> Inl e
      | Inr hs \<Rightarrow>
          new_Request P
            (or_text (protocol req) ''http'' @ ''://''
               @ or_text (get_host req) (''localhost:'' @ server_PORT w) @ originalUrl req)
            \<lparr>init_method = req_method req,
             init_headers = hs,
             init_body =
               (if req_method req \<in> set [''POST'', ''PUT'', ''PATCH''] then
                  (case req_body req of
                     None \<Rightarrow> None
                   | Some (BodyString s) \<Rightarrow> Some (Text s)
                   | Some (BodyBuffer b) \<Rightarrow> Some (Binary b)
                   | Some (BodyValue v) \<Rightarrow> Some (Text (JSON_stringify P v)))
                else None)\<rparr>)"

text \<open>
  The Express response object: the status and headers set on it so far, and what was
  handed to \<^verbatim>\<open>res.send\<close>, \<^verbatim>\<open>res.end\<close> or \<^verbatim>\<open>res.json\<close> (\<open>None\<close> while nothing was sent).
  \<^verbatim>\<open>res.status\<close> assigns the status code; \<^verbatim>\<open>res.setHeader\<close> keeps a header under its name
  in lower case and throws on a name or value the platform rejects; \<^verbatim>\<open>res.send\<close> and
  \<^verbatim>\<open>res.end\<close> throw, before anything is sent, on a status code the platform rejects.
\<close>

datatype payload = Buf bytes | Json json | Ended

record express_res =
  statusCode :: json
  headers :: "(string \<times> json) list"
  sent :: "payload option"
  headersSent :: bool

definition res_status :: "json \<Rightarrow> express_res \<Rightarrow> express_res" where
  "res_status code res = res\<lparr>statusCode := code\<rparr>"

definition res_setHeader :: "platform \<Rightarrow> string \<Rightarrow> json \<Rightarrow> express_res \<Rightarrow> js_exn + express_res"
  where
  "res_setHeader P k v res =
     (case setHeader_error P k v of
        Some msg \<Rightarrow> Inl (ErrorObj msg)
      | None \<Rightarrow> Inr (res\<lparr>headers := AList.update (toLowerCase k) v (headers res)\<rparr>))"

definition res_send :: "platform \<Rightarrow> bytes \<Rightarrow> express_res \<Rightarrow> js_exn + express_res" where
  "res_send P buf res =
     (case writeHead_error P (statusCode res) of
        Some msg \<Rightarrow> Inl (ErrorObj msg)
      | None \<Rightarrow> Inr (res\<lparr>sent := Some (Buf buf), headersSent := True\<rparr>))"

definition res_end :: "platform \<Rightarrow> express_res \<Rightarrow> js_exn + express_res" where
  "res_end P res =
     (case writeHead_error P (statusCode res) of
        Some msg \<Rightarrow> Inl (ErrorObj msg)
      | None \<Rightarrow> Inr (res\<lparr>sent := Some Ended, headersSent := True\<rparr>))"

definition res_json :: "json \<Rightarrow> express_res \<Rightarrow> express_res" where
  "res_json v res = res\<lparr>sent := Some (Json v), headersSent := True\<rparr>"

text \<open>
  \<^verbatim>\<open>entries.forEach(([k, v]) => res.setHeader(k, v))\<close>: a call that throws ends the loop
  and leaves on \<open>res\<close> the headers set before it.
\<close>

fun setHeaders ::
  "platform \<Rightarrow> (string \<times> json) list \<Rightarrow> express_res \<Rightarrow> js_exn option \<times> express_res" where
  "setHeaders P [] res = (None, res)"
| "setHeaders P ((k, v) # entries) res =
     (case res_setHeader P k v res of
        Inl e \<Rightarrow> (Some e, res)
      | Inr res' \<Rightarrow> setHeaders P entries res')"


text \<open>
  \<^verbatim>\<open>Object.entries(v)\<close>: the own properties of an object, the indexed elements of an
  array and the indexed characters of a string; none for a number or a boolean.
\<close>

function decimal :: "nat \<Rightarrow> string" where
  "decimal n =
     (if n < 10 then [char_of (48 + n)] else decimal (n div 10) @ [char_of (48 + n mod 10)])"
  by pat_completeness auto
termination
  by (relation "measure id") auto

fun Object_entries :: "json \<Rightarrow> (string \<times> json) list" where
  "Object_entries (JObj kvs) = kvs"
| "Object_entries (JArr xs) = zip (map decimal [0..<length xs]) xs"
| "Object_entries (JStr s) = zip (map decimal [0..<length s]) (map (\<lambda>c. JStr [c]) s)"
| "Object_entries v = []"

section \<open>The caching adapter\<close>

text \<open>\<^verbatim>\<open>getCacheRedis()\<close>: the memoised store client of the server.\<close>

definition getCacheRedis :: "platform \<Rightarrow> world \<Rightarrow> Redis option \<times> world" where
  "getCacheRedis P w =
     (case cacheRedis w of
        Some r \<Rightarrow> (Some r, w)
      | None \<Rightarrow>
          if cacheRedisInitFailed w then (None, w)
          else if \<not> truthy_env (REDIS_URL w) then (None, w)
          else
            (case new_Redis P w of
               (Inr r, w') \<Rightarrow> (Some r, w'\<lparr>cacheRedis := Some r\<rparr>)
             | (Inl e, w') \<Rightarrow> (None, w'\<lparr>cacheRedisInitFailed := True\<rparr>)))"

definition cacheKey :: "express_req \<Rightarrow> string" where
  "cacheKey req = ''apicache:'' @ originalUrl req"

text \<open>
  The body of \<^verbatim>\<open>if (cached) { ... }\<close>: the cached value is replayed on \<open>res\<close>. The first
  component is the exception that left the block, if one did; the second is \<open>res\<close> as the
  block left it, with every call made before the exception.
\<close>

fun or_default :: "json option \<Rightarrow> json \<Rightarrow> json" where
  "or_default None d = d"
| "or_default (Some v) d = (if truthy v then v else d)"

fun entries_if_truthy :: "json option \<Rightarrow> (string \<times> json) list" where
  "entries_if_truthy None = []"
| "entries_if_truthy (Some v) = (if truthy v then Object_entries v else [])"

definition parse_if_string :: "platform \<Rightarrow> json \<Rightarrow> js_exn + json" where
  "parse_if_string P cached =
     (case cached of
        JStr text \<Rightarrow>
          (case JSON_parse P text of
             None \<Rightarrow> Inl (ErrorObj ''Unexpected token'')
           | Some d \<Rightarrow> Inr d)
      | v \<Rightarrow> Inr v)"

definition replay :: "platform \<Rightarrow> json \<Rightarrow> express_res \<Rightarrow> js_exn option \<times> express_res" where
  "replay P cached res =
     (case parse_if_string P cached of
        Inl e \<Rightarrow> (Some e, res)
      | Inr data \<Rightarrow>
          (case get_prop (Some data) ''s'' of
             Inl e \<Rightarrow> (Some e, res)
           | Inr s \<Rightarrow>
               (case get_prop (Some data) ''h'' of
                  Inl e \<Rightarrow> (Some e, res_status (or_default s (JNum 200)) res)
                | Inr h \<Rightarrow>
                    (case setHeaders P (entries_if_truthy h)
                            (res_status (or_default s (JNum 200)) res) of
                       (Some e, res2) \<Rightarrow> (Some e, res2)
                     | (None, res2) \<Rightarrow>
                         (case res_setHeader P ''x-cache'' (JStr ''HIT'') res2 of
                            Inl e \<Rightarrow> (Some e, res2)
                          | Inr res3 \<Rightarrow>
                              (case get_prop (Some data) ''b'' of
                                 Inl e \<Rightarrow> (Some e, res3)
                               | Inr b \<Rightarrow>
                                   (case Buffer_from_base64 P b of
                                      None \<Rightarrow>
                                        (Some (ErrorObj ''The first argument must be of type string''),
                                         res3)
                                    | Some buf \<Rightarrow>
                                        (case res_send P buf res3 of
                                           Inl e \<Rightarrow> (Some e, res3)
                                         | Inr res4 \<Rightarrow> (None, res4)))))))))"

text \<open>
  The cache check. The result is \<open>True\<close> when the function returned from inside the
  block (a hit); on \<open>False\<close> the function goes on, with \<open>res\<close> as the block left it. The
  inner \<^verbatim>\<open>catch\<close> swallows every exception of the block.
\<close>

definition cache_check ::
  "platform \<Rightarrow> bool \<Rightarrow> express_req \<Rightarrow> express_res \<Rightarrow> world \<Rightarrow> bool \<times> express_res \<times> world" where
  "cache_check P shouldCache req res w =
     (if req_method req = ''GET'' \<and> shouldCache then
        (case getCacheRedis P w of
           (None, w1) \<Rightarrow> (False, res, w1)
         | (Some r, w1) \<Rightarrow>
             (case Redis_get P r w1 (cacheKey req) of
                Inl e \<Rightarrow> (False, res, w1)
              | Inr cached \<Rightarrow>
                  if truthy cached then
                    (case replay P cached res of
                       (Some e, res') \<Rightarrow> (False, res', w1)
                     | (None, res') \<Rightarrow> (True, res', w1))
                  else (False, res, w1)))
      else (False, res, w))"

text \<open>The headers of the handler's response, without \<^verbatim>\<open>transfer-encoding\<close>.\<close>

fun collect_headers :: "(string \<times> string) list \<Rightarrow> (string \<times> string) list \<Rightarrow> (string \<times> string) list"
  where
  "collect_headers [] responseHeaders = responseHeaders"
| "collect_headers ((key, v) # rest) responseHeaders =
     collect_headers rest
       (if toLowerCase key \<noteq> ''transfer-encoding'' then AList.update key v responseHeaders
        else responseHeaders)"


definition envelope :: "platform \<Rightarrow> int \<Rightarrow> (string \<times> string) list \<Rightarrow> bytes \<Rightarrow> json" where
  "envelope P st responseHeaders bodyBuf =
     JObj [(''s'', JNum st),
           (''h'', JObj (map (\<lambda>(k, v). (k, JStr v)) responseHeaders)),
           (''b'', JStr (toString_base64 P bodyBuf))]"

text \<open>The cache write; an exception of \<^verbatim>\<open>redis.set\<close> is swallowed.\<close>

definition cache_write ::
  "platform \<Rightarrow> bool \<Rightarrow> express_req \<Rightarrow> web_response \<Rightarrow> bytes \<Rightarrow> (string \<times> string) list
     \<Rightarrow> world \<Rightarrow> world"
  where
  "cache_write P shouldCache req webResponse bodyBuf responseHeaders w =
     (if req_method req = ''GET'' \<and> shouldCache \<and> 200 \<le> status webResponse
         \<and> status webResponse < 300 \<and> 0 < length bodyBuf then
        (case getCacheRedis P w of
           (None, w1) \<Rightarrow> w1
         | (Some r, w1) \<Rightarrow>
             snd (Redis_set P r w1 (cacheKey req)
                    (JStr (JSON_stringify P
                       (envelope P (status webResponse) responseHeaders bodyBuf)))
                    (Some \<lparr>ex = Some (getCacheTTL (path req))\<rparr>)))
      else w)"

definition send_response ::
  "platform \<Rightarrow> web_response \<Rightarrow> bytes \<Rightarrow> (string \<times> string) list \<Rightarrow> express_res
     \<Rightarrow> js_exn option \<times> express_res"
  where
  "send_response P webResponse bodyBuf responseHeaders res =
     (case setHeaders P (map (\<lambda>(k, v). (k, JStr v)) responseHeaders)
             (res_status (JNum (status webResponse)) res) of
        (Some e, res1) \<Rightarrow> (Some e, res1)
      | (None, res1) \<Rightarrow>
          (case res_setHeader P ''x-cache'' (JStr ''MISS'') res1 of
             Inl e \<Rightarrow> (Some e, res1)
           | Inr res2 \<Rightarrow>
               (case (if 0 < length bodyBuf then res_send P bodyBuf res2 else res_end P res2) of
                  Inl e \<Rightarrow> (Some e, res2)
                | Inr res3 \<Rightarrow> (None, res3))))"

text \<open>
  What one call of the adapter leaves: \<open>rejected\<close> is the exception that escaped the
  \<^verbatim>\<open>async\<close> function (\<open>None\<close> when it returned), \<open>reply\<close> the response object, and
  \<open>handler_called\<close> whether the handler was invoked.
\<close>

record outcome =
  rejected :: "js_exn option"
  reply :: express_res
  handler_called :: bool

text \<open>
  The \<^verbatim>\<open>try\<close> block of the adapter. After a miss it builds the request (which may
  throw), calls the handler (which may throw), reads the body (which may throw), writes
  the cache and sends the response.
\<close>

definition try_block ::
  "platform \<Rightarrow> edge_handler \<Rightarrow> bool \<Rightarrow> express_req \<Rightarrow> express_res \<Rightarrow> world \<Rightarrow> outcome \<times> world"
  where
  "try_block P handler shouldCache req res w =
     (case cache_check P shouldCache req res w of
        (True, res1, w1) \<Rightarrow> (\<lparr>rejected = None, reply = res1, handler_called = False\<rparr>, w1)
      | (False, res1, w1) \<Rightarrow>
          (case expressToWebRequest P w1 req of
             Inl err \<Rightarrow> (\<lparr>rejected = Some err, reply = res1, handler_called = False\<rparr>, w1)
           | Inr webRequest \<Rightarrow>
               (case handler webRequest of
                  Inl err \<Rightarrow> (\<lparr>rejected = Some err, reply = res1, handler_called = True\<rparr>, w1)
                | Inr webResponse \<Rightarrow>
                    (case arrayBuffer webResponse of
                       Inl err \<Rightarrow>
                         (\<lparr>rejected = Some err, reply = res1, handler_called = True\<rparr>, w1)
                     | Inr bodyBuf \<Rightarrow>
                         (case send_response P webResponse bodyBuf
                                 (collect_headers (response_headers webResponse) []) res1 of
                            (e, res2) \<Rightarrow>
                              (\<lparr>rejected = e, reply = res2, handler_called = True\<rparr>,
                               cache_write P shouldCache req webResponse bodyBuf
                                 (collect_headers (response_headers webResponse) []) w1))))))"

text \<open>
  \<^verbatim>\<open>adaptEdgeHandler(handlerModule, routePath)(req, res)\<close>. The \<^verbatim>\<open>catch\<close> block reads
  \<^verbatim>\<open>err.message\<close> for its log line before it replies.
\<close>

definition error_body :: "json option \<Rightarrow> json" where
  "error_body details =
     JObj ((''error'', JStr ''Internal server error'')
           # (case details of None \<Rightarrow> [] | Some d \<Rightarrow> [(''details'', d)]))"

definition adaptEdgeHandler ::
  "platform \<Rightarrow> edge_handler \<Rightarrow> string \<Rightarrow> express_req \<Rightarrow> express_res \<Rightarrow> world \<Rightarrow> outcome \<times> world"
  where
  "adaptEdgeHandler P handler routePath req res w =
     (case try_block P handler (routePath \<notin> set NO_CACHE) req res w of
        (out, w') \<Rightarrow>
          (case rejected out of
             None \<Rightarrow> (out, w')
           | Some err \<Rightarrow>
               (case err_message err of
                  Inl e \<Rightarrow> (out\<lparr>rejected := Some e\<rparr>, w')
                | Inr details \<Rightarrow>
                    if \<not> headersSent (reply out) then
                      (out\<lparr>rejected := None,
                           reply := res_json (error_body details)
                                      (res_status (JNum 500) (reply out))\<rparr>, w')
                    else (out\<lparr>rejected := None\<rparr>, w'))))"

section \<open>The relay\<close>

datatype readyState = CONNECTING | OPEN | CLOSING | CLOSED

text \<open>
  The variables of \<^verbatim>\<open>setupAisRelay\<close> (\<open>upstreamSocket\<close>, \<open>clients\<close>, \<open>messageCount\<close>) and
  what the relay can observe and do on its sockets: the \<^verbatim>\<open>readyState\<close> of each socket
  and the frames passed to its \<^verbatim>\<open>send\<close>, oldest first. Upstream sockets are numbered in
  the order \<^verbatim>\<open>new WebSocket\<close> creates them, so the sockets below \<open>sockets_created\<close>
  exist and carry the handlers of \<^verbatim>\<open>connectUpstream\<close>. \<open>clients\<close> is a \<^verbatim>\<open>Set\<close>: its elements
  in insertion order. \<open>timers\<close> holds the times (in milliseconds) at which the pending
  \<^verbatim>\<open>setTimeout(connectUpstream, 5000)\<close> calls are due.
\<close>

record relay =
  upstreamSocket :: "nat option"
  clients :: "nat list"
  messageCount :: nat
  upstream_state :: "nat \<Rightarrow> readyState"
  upstream_sent :: "nat \<Rightarrow> string list"
  client_state :: "nat \<Rightarrow> readyState"
  client_sent :: "nat \<Rightarrow> string list"
  sockets_created :: nat
  timers :: "nat list"
  now :: nat

definition relay_init :: relay where
  "relay_init =
     \<lparr>upstreamSocket = None, clients = [], messageCount = 0,
      upstream_state = (\<lambda>s. CLOSED), upstream_sent = (\<lambda>s. []),
      client_state = (\<lambda>c. CLOSED), client_sent = (\<lambda>c. []),
      sockets_created = 0, timers = [], now = 0\<rparr>"

text \<open>
  The guard of \<^verbatim>\<open>connectUpstream\<close>: the current upstream socket is open or connecting.
\<close>

definition upstream_live :: "relay \<Rightarrow> bool" where
  "upstream_live st =
     (case upstreamSocket st of
        None \<Rightarrow> False
      | Some s \<Rightarrow> upstream_state st s = OPEN \<or> upstream_state st s = CONNECTING)"

definition connectUpstream :: "relay \<Rightarrow> relay" where
  "connectUpstream st =
     (if upstream_live st then st
      else st\<lparr>upstreamSocket := Some (sockets_created st),
              upstream_state := (upstream_state st)(sockets_created st := CONNECTING),
              sockets_created := Suc (sockets_created st)\<rparr>)"

definition subscription :: "string \<Rightarrow> json" where
  "subscription API_KEY =
     JObj [(''APIKey'', JStr API_KEY),
           (''BoundingBoxes'',
              JArr [JArr [JArr [JNum (- 90), JNum (- 180)], JArr [JNum 90, JNum 180]]]),
           (''FilterMessageTypes'', JArr [JStr ''PositionReport''])]"

text \<open>The handlers \<^verbatim>\<open>connectUpstream\<close> puts on the socket it creates.\<close>

definition on_open :: "platform \<Rightarrow> string \<Rightarrow> nat \<Rightarrow> relay \<Rightarrow> relay" where
  "on_open P API_KEY socket st =
     (if upstreamSocket st \<noteq> Some socket
      then st\<lparr>upstream_state := (upstream_state st)(socket := CLOSING)\<rparr>
      else st\<lparr>upstream_sent := (upstream_sent st)
                 (socket := upstream_sent st socket @ [JSON_stringify P (subscription API_KEY)])\<rparr>)"

fun broadcast :: "string \<Rightarrow> nat list \<Rightarrow> relay \<Rightarrow> relay" where
  "broadcast message [] st = st"
| "broadcast message (c # cs) st =
     broadcast message cs
       (if client_state st c = OPEN
        then st\<lparr>client_sent := (client_sent st)(c := client_sent st c @ [message])\<rparr>
        else st)"

text \<open>
  \<^verbatim>\<open>client.send(message)\<close> sends a text frame, whose payload is the UTF-8 encoding of the
  string: the bytes the string is held as.
\<close>

definition frame_payload :: "string \<Rightarrow> bytes" where
  "frame_payload message = map of_char message"

definition on_message :: "platform \<Rightarrow> nat \<Rightarrow> bytes \<Rightarrow> relay \<Rightarrow> relay" where
  "on_message P socket data st =
     (if upstreamSocket st \<noteq> Some socket then st
      else broadcast (Buffer_toString P data) (clients st)
             (st\<lparr>messageCount := messageCount st + 1\<rparr>))"

definition on_close :: "nat \<Rightarrow> relay \<Rightarrow> relay" where
  "on_close socket st =
     (if upstreamSocket st = Some socket
      then st\<lparr>upstreamSocket := None, timers := timers st @ [now st + 5000]\<rparr>
      else st)"

text \<open>The \<^verbatim>\<open>connection\<close> handler of the server and the \<^verbatim>\<open>close\<close> handler of a subscriber.\<close>

definition on_connection :: "nat \<Rightarrow> relay \<Rightarrow> relay" where
  "on_connection ws st =
     connectUpstream
       (st\<lparr>clients := (if ws \<in> set (clients st) then clients st else clients st @ [ws])\<rparr>)"

definition on_client_close :: "nat \<Rightarrow> relay \<Rightarrow> relay" where
  "on_client_close ws st = st\<lparr>clients := removeAll ws (clients st)\<rparr>"

text \<open>
  The events the process receives. The socket library sets the \<^verbatim>\<open>readyState\<close> before it
  calls a handler: \<open>OPEN\<close> on \<^verbatim>\<open>connection\<close> and \<^verbatim>\<open>open\<close>, \<open>CLOSED\<close> on \<^verbatim>\<open>close\<close>; a
  subscriber socket that starts to close is \<open>CLOSING\<close> until its \<^verbatim>\<open>close\<close> event. The
  \<^verbatim>\<open>error\<close> handlers only log. \<open>Timer\<close> runs the earliest pending timer if it is due.
\<close>

datatype event =
    Connection nat
  | ClientClosing nat
  | ClientClose nat
  | ClientError nat
  | UpstreamOpen nat
  | UpstreamMessage nat bytes
  | UpstreamClose nat
  | UpstreamError nat
  | Elapse nat
  | Timer

fun step :: "platform \<Rightarrow> string \<Rightarrow> event \<Rightarrow> relay \<Rightarrow> relay" where
  "step P k (Connection ws) st =
     on_connection ws (st\<lparr>client_state := (client_state st)(ws := OPEN)\<rparr>)"
| "step P k (ClientClosing ws) st = st\<lparr>client_state := (client_state st)(ws := CLOSING)\<rparr>"
| "step P k (ClientClose ws) st =
     on_client_close ws (st\<lparr>client_state := (client_state st)(ws := CLOSED)\<rparr>)"
| "step P k (ClientError ws) st = st"
| "step P k (UpstreamOpen s) st =
     (if s < sockets_created st
      then on_open P k s (st\<lparr>upstream_state := (upstream_state st)(s := OPEN)\<rparr>)
      else st)"
| "step P k (UpstreamMessage s d) st =
     (if s < sockets_created st then on_message P s d st else st)"
| "step P k (UpstreamClose s) st =
     (if s < sockets_created st
      then on_close s (st\<lparr>upstream_state := (upstream_state st)(s := CLOSED)\<rparr>)
      else st)"
| "step P k (UpstreamError s) st = st"
| "step P k (Elapse ms) st = st\<lparr>now := now st + ms\<rparr>"
| "step P k Timer st =
     (case timers st of
        [] \<Rightarrow> st
      | due # rest \<Rightarrow> if due \<le> now st then connectUpstream (st\<lparr>timers := rest\<rparr>) else st)"

fun run :: "platform \<Rightarrow> string \<Rightarrow> event list \<Rightarrow> relay \<Rightarrow> relay" where
  "run P k [] st = st"
| "run P k (e # es) st = run P k es (step P k e st)"

text \<open>
  What holds in every state the relay reaches: the subscriber set has no duplicates, and
  the current upstream socket is one that was created.
\<close>

definition relay_inv :: "relay \<Rightarrow> bool" where
  "relay_inv st =
     (distinct (clients st) \<and>
      (case upstreamSocket st of None \<Rightarrow> True | Some s \<Rightarrow> s < sockets_created st))"

section \<open>Sample inputs\<close>

text \<open>
  A platform for the examples. Its functions are tables over the few arguments the
  examples use, with the values the real functions have there: the JSON texts below
  parse to the values given and no other text of the examples is JSON, the base64 text
  of the bytes of \<^verbatim>\<open>ok\<close> is \<^verbatim>\<open>b2s=\<close>, \<^verbatim>\<open>Buffer.from\<close> accepts a string and throws on a
  number, a URL with a space in its host does not parse, and the byte \<^verbatim>\<open>ff\<close>, which is
  not UTF-8, decodes to the replacement character (the bytes \<^verbatim>\<open>ef bf bd\<close>).
\<close>

definition sample_envelope :: json where
  "sample_envelope =
     JObj [(''s'', JNum 200),
           (''h'', JObj [(''content-type'', JStr ''text/plain'')]),
           (''b'', JStr ''b2s='')]"

definition sample_envelope_text :: string where
  "sample_envelope_text = ''{\"s\":200,\"h\":{\"content-type\":\"text/plain\"},\"b\":\"b2s=\"}''"

definition cookie_envelope :: json where
  "cookie_envelope =
     JObj [(''s'', JNum 200),
           (''h'', JObj [(''content-type'', JStr ''text/plain''),
                         (''set-cookie'', JStr ''b=2'')]),
           (''b'', JStr ''b2s='')]"

definition cookie_envelope_text :: string where
  "cookie_envelope_text =
     ''{\"s\":200,\"h\":{\"content-type\":\"text/plain\",\"set-cookie\":\"b=2\"},\"b\":\"b2s=\"}''"

definition corrupt_envelope :: json where
  "corrupt_envelope =
     JObj [(''s'', JNum 200), (''h'', JObj [(''x-stale'', JStr ''1'')]), (''b'', JNum 5)]"

definition corrupt_envelope_text :: string where
  "corrupt_envelope_text = ''{\"s\":200,\"h\":{\"x-stale\":\"1\"},\"b\":5}''"

definition sample_platform :: platform where
  "sample_platform =
     \<lparr>JSON_parse =
        (\<lambda>text. if text = sample_envelope_text then Some sample_envelope
                else if text = cookie_envelope_text then Some cookie_envelope
                else if text = corrupt_envelope_text then Some corrupt_envelope
                else if text = ''[1,2]'' then Some (JArr [JNum 1, JNum 2])
                else None),
      JSON_stringify =
        (\<lambda>v. if v = sample_envelope then sample_envelope_text
              else if v = cookie_envelope then cookie_envelope_text
              else ''null''),
      toString_base64 = (\<lambda>b. if b = [0x6F, 0x6B] then ''b2s='' else []),
      Buffer_from_base64 =
        (\<lambda>v. case v of
               Some (JStr t) \<Rightarrow> Some (if t = ''b2s='' then [0x6F, 0x6B] else [])
             | _ \<Rightarrow> None),
      setHeader_error = (\<lambda>k v. None),
      writeHead_error = (\<lambda>code. None),
      new_IORedis_error = (\<lambda>u. None),
      Buffer_toString =
        (\<lambda>b. if b = [0x68, 0x69] then ''hi''
              else if b = [0x79, 0x6F] then ''yo''
              else if b = [0xFF] then [CHR 0xEF, CHR 0xBF, CHR 0xBD]
              else []),
      Headers_set_error = (\<lambda>k v. None),
      new_Request =
        (\<lambda>u init. if CHR '' '' \<in> set u then Inl (ErrorObj ''Invalid URL'')
                  else Inr \<lparr>url = u, request_method = init_method init,
                            request_headers = init_headers init,
                            request_body = init_body init\<rparr>)\<rparr>"

text \<open>
  A process whose store client was created at start-up, with an empty store, at second
  1000; a request for a cached route, and the same request with a host that is no host;
  a fresh response object; and a handler response.
\<close>

definition sample_world :: world where
  "sample_world =
     \<lparr>REDIS_URL = Some ''redis://cache:6379'', PORT = None, transport_up = True,
      db = Map.empty, clock = 1000,
      client = Some (IORedis ''redis://cache:6379''), initFailed = False,
      cacheRedis = Some \<lparr>this_client = Some (IORedis ''redis://cache:6379'')\<rparr>,
      cacheRedisInitFailed = False,
      redis = None, redisInitFailed = False\<rparr>"

definition sample_req :: express_req where
  "sample_req =
     \<lparr>req_method = ''GET'', originalUrl = ''/api/earthquakes?min=5'', path = ''/api/earthquakes'',
      protocol = Some ''http'', get_host = Some ''localhost:3000'', req_headers = [],
      req_body = None\<rparr>"

definition bad_host_req :: express_req where
  "bad_host_req = sample_req\<lparr>get_host := Some ''a b''\<rparr>"

definition fresh_res :: express_res where
  "fresh_res = \<lparr>statusCode = JNum 200, headers = [], sent = None, headersSent = False\<rparr>"

definition sample_response :: web_response where
  "sample_response =
     \<lparr>status = 200,
      response_headers = [(''content-type'', ''text/plain''), (''transfer-encoding'', ''chunked'')],
      arrayBuffer = Inr [0x6F, 0x6B]\<rparr>"


definition plain_response :: web_response where
  "plain_response =
     \<lparr>status = 200, response_headers = [(''content-type'', ''text/plain'')],
      arrayBuffer = Inr [0x6F, 0x6B]\<rparr>"

definition corrupt_world :: world where
  "corrupt_world =
     sample_world\<lparr>db := [''apicache:/api/earthquakes?min=5''
                            \<mapsto> (corrupt_envelope_text, Some 2000)]\<rparr>"

section \<open>The store client never throws\<close>

lemma ioredis_get_error: "ioredis_get w key = Inl err \<Longrightarrow> \<exists>m. err = ErrorObj m"
  by (auto simp: ioredis_get_def split: if_splits)

lemma ioredis_set_error:
  "ioredis_set w key v e = (Inl err, w') \<Longrightarrow> (\<exists>m. err = ErrorObj m) \<and> w' = w"
  by (auto simp: ioredis_set_def split: if_splits option.splits ttl_value.splits)

lemma ioredis_mget_error: "ioredis_mget w ks = Inl err \<Longrightarrow> \<exists>m. err = ErrorObj m"
  by (auto simp: ioredis_mget_def split: if_splits)

lemma Redis_get_returns: "\<exists>v. Redis_get P this w key = Inr v"
  by (auto simp: Redis_get_def ioredis_get_def split: option.splits sum.splits)

lemma Redis_set_returns: "\<exists>v. fst (Redis_set P this w key val opts) = Inr v"
  by (auto simp: Redis_set_def split: option.splits sum.splits prod.splits
      dest!: ioredis_set_error)

text \<open>
  C6. \<^verbatim>\<open>Redis.get\<close> always returns and never throws. It returns the absent sentinel
  \<^verbatim>\<open>null\<close> when the client has no connection, when the command fails in transport and
  when the key is missing (or expired); with a stored string it returns the parsed value
  when the string parses as JSON and the string itself when it does not.
\<close>

theorem Redis_get_absent_or_parsed:
  "(\<exists>v. Redis_get P this w key = Inr v) \<and>
   (this_client this = None \<longrightarrow> Redis_get P this w key = Inr JNull) \<and>
   (\<not> transport_up w \<longrightarrow> Redis_get P this w key = Inr JNull) \<and>
   (live w key = None \<longrightarrow> Redis_get P this w key = Inr JNull) \<and>
   (\<forall>c raw v. this_client this = Some c \<and> transport_up w \<and> live w key = Some raw \<and>
      JSON_parse P raw = Some v \<longrightarrow> Redis_get P this w key = Inr v) \<and>
   (\<forall>c raw. this_client this = Some c \<and> transport_up w \<and> live w key = Some raw \<and>
      JSON_parse P raw = None \<longrightarrow> Redis_get P this w key = Inr (JStr raw))"
  by (auto simp: Redis_get_def ioredis_get_def split: option.splits sum.splits)

theorem Redis_get_absent_or_parsed_witness:
  "Redis_get sample_platform \<lparr>this_client = Some (IORedis ''u'')\<rparr>
      (sample_world\<lparr>db := [''k'' \<mapsto> (''[1,2]'', None)]\<rparr>) ''k'' = Inr (JArr [JNum 1, JNum 2]) \<and>
   Redis_get sample_platform \<lparr>this_client = Some (IORedis ''u'')\<rparr>
      (sample_world\<lparr>db := [''k'' \<mapsto> (''plain text'', None)]\<rparr>) ''k'' = Inr (JStr ''plain text'') \<and>
   Redis_get sample_platform \<lparr>this_client = Some (IORedis ''u'')\<rparr>
      (sample_world\<lparr>db := [''k'' \<mapsto> (''[1,2]'', None)]\<rparr>) ''other'' = Inr JNull \<and>
   Redis_get sample_platform \<lparr>this_client = Some (IORedis ''u'')\<rparr>
      (sample_world\<lparr>db := [''k'' \<mapsto> (''[1,2]'', None)], transport_up := False\<rparr>) ''k'' = Inr JNull \<and>
   Redis_get sample_platform \<lparr>this_client = None\<rparr>
      (sample_world\<lparr>db := [''k'' \<mapsto> (''[1,2]'', None)]\<rparr>) ''k'' = Inr JNull"
proof -
  let ?r = "\<lparr>this_client = Some (IORedis ''u'')\<rparr>"
  let ?w = "sample_world\<lparr>db := [''k'' \<mapsto> (''[1,2]'', None)]\<rparr>"
  let ?w2 = "sample_world\<lparr>db := [''k'' \<mapsto> (''plain text'', None)]\<rparr>"
  have up: "transport_up ?w" "transport_up ?w2" by (simp_all add: sample_world_def)
  have l1: "live ?w ''k'' = Some ''[1,2]''" by (simp add: live_def sample_world_def)
  have l2: "live ?w2 ''k'' = Some ''plain text''" by (simp add: live_def sample_world_def)
  have l3: "live ?w ''other'' = None" by (simp add: live_def sample_world_def)
  have p1: "JSON_parse sample_platform ''[1,2]'' = Some (JArr [JNum 1, JNum 2])"
    by (simp add: sample_platform_def sample_envelope_text_def cookie_envelope_text_def
        corrupt_envelope_text_def)
  have p2: "JSON_parse sample_platform ''plain text'' = None"
    by (simp add: sample_platform_def sample_envelope_text_def cookie_envelope_text_def
        corrupt_envelope_text_def)
  have c: "this_client ?r = Some (IORedis ''u'')" by simp
  have a: "Redis_get sample_platform ?r ?w ''k'' = Inr (JArr [JNum 1, JNum 2])"
    using Redis_get_absent_or_parsed [of sample_platform ?r ?w "''k''"] c up(1) l1 p1 by blast
  have b: "Redis_get sample_platform ?r ?w2 ''k'' = Inr (JStr ''plain text'')"
    using Redis_get_absent_or_parsed [of sample_platform ?r ?w2 "''k''"] c up(2) l2 p2 by blast
  have d: "Redis_get sample_platform ?r ?w ''other'' = Inr JNull"
    using Redis_get_absent_or_parsed [of sample_platform ?r ?w "''other''"] l3 by blast
  have e: "Redis_get sample_platform ?r (?w\<lparr>transport_up := False\<rparr>) ''k'' = Inr JNull"
    using Redis_get_absent_or_parsed [of sample_platform ?r "?w\<lparr>transport_up := False\<rparr>" "''k''"]
    by simp
  have f: "Redis_get sample_platform \<lparr>this_client = None\<rparr> ?w ''k'' = Inr JNull"
    using Redis_get_absent_or_parsed [of sample_platform "\<lparr>this_client = None\<rparr>" ?w "''k''"]
    by simp
  show ?thesis using a b d e f by simp
qed

text \<open>
  C7. \<^verbatim>\<open>Redis.mget\<close> called with one array of two keys on a client without connection
  returns one \<^verbatim>\<open>null\<close>, not two: the branch for the missing connection maps over the
  arguments, not over the flattened keys. The \<^verbatim>\<open>catch\<close> branch of the same method
  flattens first, and returns two.
\<close>

theorem Redis_mget_no_client_length:
  "Redis_mget sample_platform \<lparr>this_client = None\<rparr> sample_world [Keys [''a'', ''b'']]
     = Inr [JNull] \<and>
   length (flat [Keys [''a'', ''b'']]) = 2 \<and>
   Redis_mget sample_platform \<lparr>this_client = Some (IORedis ''u'')\<rparr>
      (sample_world\<lparr>transport_up := False\<rparr>) [Keys [''a'', ''b'']] = Inr [JNull, JNull]"
  by (simp add: Redis_mget_def flat_def ioredis_mget_def sample_world_def)

section \<open>The cache helper\<close>

lemma getRedis_keeps_store:
  "getRedis P w = (r, w1) \<Longrightarrow>
     db w1 = db w \<and> transport_up w1 = transport_up w \<and> clock w1 = clock w"
  by (auto simp: getRedis_def new_Redis_def getClient_def
      split: option.splits if_splits prod.splits sum.splits)

text \<open>
  C10. \<^verbatim>\<open>setCachedJson\<close> never throws and returns whether \<^verbatim>\<open>getRedis()\<close> gave a client:
  \<^verbatim>\<open>true\<close> whenever a client object exists, \<^verbatim>\<open>false\<close> only when none does. When the
  client exists and the transport fails, \<^verbatim>\<open>Redis.set\<close> returns \<^verbatim>\<open>null\<close> without throwing,
  the store is left as it was, and \<^verbatim>\<open>setCachedJson\<close> still returns \<^verbatim>\<open>true\<close>.
\<close>

theorem setCachedJson_true_without_store:
  "fst (setCachedJson P w key val ttl) = Inr (fst (getRedis P w) \<noteq> None) \<and>
   (\<forall>r. fst (getRedis P w) = Some r \<and> \<not> transport_up w \<longrightarrow>
      db (snd (setCachedJson P w key val ttl)) = db w \<and>
      fst (Redis_set P r (snd (getRedis P w)) key val (Some \<lparr>ex = ttl\<rparr>)) = Inr JNull)"
proof -
  obtain r w1 where g: "getRedis P w = (r, w1)" by (cases "getRedis P w")
  have same: "db w1 = db w" "transport_up w1 = transport_up w"
    using getRedis_keeps_store [OF g] by simp_all
  show ?thesis
  proof (cases r)
    case None
    then show ?thesis using g by (simp add: setCachedJson_def)
  next
    case (Some rc)
    obtain res w2 where s: "Redis_set P rc w1 key val (Some \<lparr>ex = ttl\<rparr>) = (res, w2)"
      by (cases "Redis_set P rc w1 key val (Some \<lparr>ex = ttl\<rparr>)")
    obtain v where v: "res = Inr v"
      using Redis_set_returns [of P rc w1 key val "Some \<lparr>ex = ttl\<rparr>"] s by auto
    have t: "fst (setCachedJson P w key val ttl) = Inr True"
      using g Some s v by (simp add: setCachedJson_def)
    have w2: "snd (setCachedJson P w key val ttl) = w2"
      using g Some s v by (simp add: setCachedJson_def)
    have down: "\<not> transport_up w \<Longrightarrow> res = Inr JNull \<and> db w2 = db w"
      using s same
      by (auto simp: Redis_set_def ioredis_set_def split: option.splits)
    show ?thesis using t w2 g Some s down by auto
  qed
qed

theorem setCachedJson_true_without_store_witness:
  "fst (getRedis sample_platform (sample_world\<lparr>transport_up := False\<rparr>))
     = Some \<lparr>this_client = Some (IORedis ''redis://cache:6379'')\<rparr> \<and>
   fst (setCachedJson sample_platform (sample_world\<lparr>transport_up := False\<rparr>)
          ''k'' (JStr ''v'') (Some (Seconds 60))) = Inr True \<and>
   db (snd (setCachedJson sample_platform (sample_world\<lparr>transport_up := False\<rparr>)
          ''k'' (JStr ''v'') (Some (Seconds 60)))) ''k'' = None"
proof -
  let ?w = "sample_world\<lparr>transport_up := False\<rparr>"
  have g: "fst (getRedis sample_platform ?w)
             = Some \<lparr>this_client = Some (IORedis ''redis://cache:6379'')\<rparr>"
    by (simp add: getRedis_def new_Redis_def getClient_def sample_world_def)
  have d: "\<not> transport_up ?w" by simp
  have e: "db ?w ''k'' = None" by (simp add: sample_world_def)
  show ?thesis
    using setCachedJson_true_without_store
            [of sample_platform ?w "''k''" "JStr ''v''" "Some (Seconds 60)"] g d e
    by simp
qed

section \<open>The resolved TTL\<close>

lemma CACHE_TTLS_agreeing: "agreeing CACHE_TTLS"
  unfolding agreeing_def CACHE_TTLS_def by simp

lemma CACHE_TTLS_positive: "list_all (\<lambda>e. snd e \<noteq> 0) CACHE_TTLS"
  unfolding CACHE_TTLS_def by simp

lemma Object_prototype_no_slash: "list_all (\<lambda>k. \<not> prefix ''/'' k) Object_prototype"
  unfolding Object_prototype_def by simp

lemma longest_in: "longest ms = Some m \<Longrightarrow> m \<in> set ms"
  by (induction ms arbitrary: m) (auto split: option.splits if_splits)

lemma longest_None: "longest ms = None \<longleftrightarrow> ms = []"
  by (cases ms) (auto split: option.splits)

lemma first_prefix_filter:
  "first_prefix tab p =
     (case filter (\<lambda>e. prefix (fst e) p) tab of [] \<Rightarrow> None | m # ms \<Rightarrow> Some (snd m))"
  by (induction tab p rule: first_prefix.induct) auto

lemma matches_agree:
  assumes "agreeing tab" "e \<in> set tab" "f \<in> set tab"
    and "prefix (fst e) p" "prefix (fst f) p"
  shows "snd e = snd f"
proof -
  from assms(4,5) have "prefix (fst e) (fst f) \<or> prefix (fst f) (fst e)"
    by (rule prefix_same_cases)
  with assms(1-3) show ?thesis
    unfolding agreeing_def list_all_iff by metis
qed

lemma first_is_longest:
  assumes "agreeing tab"
  shows "first_prefix tab p =
           map_option snd (longest (filter (\<lambda>e. prefix (fst e) p) tab))"
proof (cases "filter (\<lambda>e. prefix (fst e) p) tab")
  case Nil
  then show ?thesis by (simp add: first_prefix_filter)
next
  case (Cons m ms)
  then obtain l where l: "longest (filter (\<lambda>e. prefix (fst e) p) tab) = Some l"
    using longest_None [of "filter (\<lambda>e. prefix (fst e) p) tab"] by auto
  then have "l \<in> set (filter (\<lambda>e. prefix (fst e) p) tab)" by (rule longest_in)
  then have lin: "l \<in> set tab" "prefix (fst l) p" by auto
  have "m \<in> set (filter (\<lambda>e. prefix (fst e) p) tab)" using Cons by simp
  then have min: "m \<in> set tab" "prefix (fst m) p" by auto
  have "snd m = snd l" using matches_agree [OF assms min(1) lin(1) min(2) lin(2)] .
  then show ?thesis using Cons l by (simp add: first_prefix_filter)
qed

lemma exact_positive: "map_of CACHE_TTLS p = Some n \<Longrightarrow> n \<noteq> 0"
  using CACHE_TTLS_positive unfolding list_all_iff by (auto dest!: map_of_SomeD)

lemma slash_not_inherited: "prefix ''/'' p \<Longrightarrow> p \<notin> set Object_prototype"
  using Object_prototype_no_slash unfolding list_all_iff by auto

lemma getCacheTTL_request_path:
  assumes "prefix ''/'' p"
  shows "getCacheTTL p = Seconds (policy_ttl p)"
proof (cases "map_of CACHE_TTLS p")
  case None
  then have "CACHE_TTLS_at p = None"
    using slash_not_inherited [OF assms] by (simp add: CACHE_TTLS_at_def)
  then show ?thesis
    using None first_is_longest [OF CACHE_TTLS_agreeing, of p]
    by (simp add: getCacheTTL_def policy_ttl_def longest_prefix_ttl_def DEFAULT_TTL_def
        split: option.splits)
next
  case (Some n)
  then show ?thesis
    using exact_positive [OF Some]
    by (simp add: getCacheTTL_def policy_ttl_def CACHE_TTLS_at_def)
qed

lemma policy_ttl_positive: "0 < policy_ttl p"
proof (cases "map_of CACHE_TTLS p")
  case None
  show ?thesis
  proof (cases "longest (filter (\<lambda>e. prefix (fst e) p) CACHE_TTLS)")
    case N: None
    then show ?thesis using None by (simp add: policy_ttl_def longest_prefix_ttl_def)
  next
    case (Some l)
    then have "l \<in> set CACHE_TTLS" using longest_in [OF Some] by simp
    then have "snd l \<noteq> 0" using CACHE_TTLS_positive unfolding list_all_iff by auto
    then show ?thesis using None Some by (simp add: policy_ttl_def longest_prefix_ttl_def)
  qed
next
  case (Some n)
  then show ?thesis using exact_positive [OF Some] by (simp add: policy_ttl_def)
qed

text \<open>
  C2. For every request path (a path that starts with a slash) \<^verbatim>\<open>getCacheTTL\<close> returns
  the table entry on an exact match, else the TTL of the longest key of the table that
  is a prefix of the path, else the default of 120 seconds. The loop returns the first
  matching entry in table order; in this table every key that extends another key has
  the same TTL, so the first match and the longest match give the same number. The path
  \<^verbatim>\<open>/api/earthquakes\<close> resolves to 60 and \<^verbatim>\<open>/api/unknown-thing\<close> to the default.
\<close>

theorem getCacheTTL_policy:
  "(\<forall>p. prefix ''/'' p \<longrightarrow> getCacheTTL p = Seconds (policy_ttl p)) \<and>
   getCacheTTL ''/api/earthquakes'' = Seconds 60 \<and>
   getCacheTTL ''/api/unknown-thing'' = Seconds DEFAULT_TTL \<and>
   DEFAULT_TTL = 120"
proof (intro conjI allI impI)
  fix p :: string
  assume "prefix ''/'' p"
  then show "getCacheTTL p = Seconds (policy_ttl p)"
    by (rule getCacheTTL_request_path)
next
  show "getCacheTTL ''/api/earthquakes'' = Seconds 60"
    by (simp add: getCacheTTL_def CACHE_TTLS_at_def CACHE_TTLS_def)
next
  show "getCacheTTL ''/api/unknown-thing'' = Seconds DEFAULT_TTL"
    by (simp add: getCacheTTL_def CACHE_TTLS_at_def CACHE_TTLS_def Object_prototype_def)
next
  show "DEFAULT_TTL = 120" by (simp add: DEFAULT_TTL_def)
qed

theorem getCacheTTL_policy_witness:
  "prefix ''/'' ''/api/acled-conflict/2024'' \<and>
   getCacheTTL ''/api/acled-conflict/2024'' = Seconds 900 \<and>
   policy_ttl ''/api/acled-conflict/2024'' = 900"
proof -
  have s: "prefix ''/'' ''/api/acled-conflict/2024''" by simp
  have "getCacheTTL ''/api/acled-conflict/2024''
          = Seconds (policy_ttl ''/api/acled-conflict/2024'')"
    using getCacheTTL_policy s by blast
  moreover have "policy_ttl ''/api/acled-conflict/2024'' = 900"
    by (simp add: policy_ttl_def longest_prefix_ttl_def CACHE_TTLS_def)
  ultimately show ?thesis using s by simp
qed

section \<open>The caching adapter: the store it leaves\<close>

lemma getClient_keeps:
  "getClient P w = (c, w1) \<Longrightarrow>
     db w1 = db w \<and> transport_up w1 = transport_up w \<and> clock w1 = clock w \<and> PORT w1 = PORT w
     \<and> REDIS_URL w1 = REDIS_URL w \<and> cacheRedis w1 = cacheRedis w
     \<and> cacheRedisInitFailed w1 = cacheRedisInitFailed w"
  by (auto simp: getClient_def split: option.splits if_splits)

lemma getCacheRedis_keeps:
  "getCacheRedis P w = (r, w1) \<Longrightarrow>
     db w1 = db w \<and> transport_up w1 = transport_up w \<and> clock w1 = clock w \<and> PORT w1 = PORT w"
  by (auto simp: getCacheRedis_def new_Redis_def split: option.splits if_splits prod.splits
      dest!: getClient_keeps)

lemma getCacheRedis_again:
  "getCacheRedis P w = (r, w1) \<Longrightarrow> getCacheRedis P w1 = (r, w1)"
  by (auto simp: getCacheRedis_def new_Redis_def split: option.splits if_splits prod.splits
      dest!: getClient_keeps)

lemma cache_check_world:
  "cache_check P sc req res w = (hit, res1, w1) \<Longrightarrow>
     w1 = (if req_method req = ''GET'' \<and> sc then snd (getCacheRedis P w) else w)"
  by (auto simp: cache_check_def split: option.splits if_splits prod.splits sum.splits)

lemma expressToWebRequest_PORT:
  assumes "PORT w1 = PORT w"
  shows "expressToWebRequest P w1 req = expressToWebRequest P w req"
proof -
  have h: "server_PORT w1 = server_PORT w" using assms by (simp add: server_PORT_def)
  show ?thesis unfolding expressToWebRequest_def h by (rule refl)
qed


lemma Redis_set_stores:
  assumes "this_client r = Some c" "transport_up w" "0 < n"
  shows "snd (Redis_set P r w key (JStr text) (Some \<lparr>ex = Some (Seconds n)\<rparr>))
           = w\<lparr>db := (db w)(key \<mapsto> (text, Some (clock w + n)))\<rparr>"
  using assms by (simp add: Redis_set_def ioredis_set_def)

lemma Redis_set_keeps:
  "this_client r = None \<or> \<not> transport_up w \<Longrightarrow> snd (Redis_set P r w key val opts) = w"
  by (auto simp: Redis_set_def ioredis_set_def split: option.splits)

lemma adapt_world:
  "snd (adaptEdgeHandler P handler routePath req res w)
     = snd (try_block P handler (routePath \<notin> set NO_CACHE) req res w)"
  by (auto simp: adaptEdgeHandler_def split: prod.splits option.splits sum.splits)

lemma adapt_called:
  "handler_called (fst (adaptEdgeHandler P handler routePath req res w))
     = handler_called (fst (try_block P handler (routePath \<notin> set NO_CACHE) req res w))"
  by (auto simp: adaptEdgeHandler_def split: prod.splits option.splits sum.splits)

lemma try_block_hit:
  "cache_check P sc req res w = (True, res1, w1) \<Longrightarrow>
     try_block P handler sc req res w
       = (\<lparr>rejected = None, reply = res1, handler_called = False\<rparr>, w1)"
  by (simp add: try_block_def)

lemma try_block_no_request:
  "cache_check P sc req res w = (False, res1, w1) \<Longrightarrow>
   expressToWebRequest P w1 req = Inl err \<Longrightarrow>
     try_block P handler sc req res w
       = (\<lparr>rejected = Some err, reply = res1, handler_called = False\<rparr>, w1)"
  by (simp add: try_block_def)

lemma try_block_throw:
  "cache_check P sc req res w = (False, res1, w1) \<Longrightarrow>
   expressToWebRequest P w1 req = Inr webRequest \<Longrightarrow>
   handler webRequest = Inl err \<Longrightarrow>
     try_block P handler sc req res w
       = (\<lparr>rejected = Some err, reply = res1, handler_called = True\<rparr>, w1)"
  by (simp add: try_block_def)

lemma try_block_no_body:
  "cache_check P sc req res w = (False, res1, w1) \<Longrightarrow>
   expressToWebRequest P w1 req = Inr webRequest \<Longrightarrow>
   handler webRequest = Inr resp \<Longrightarrow>
   arrayBuffer resp = Inl err \<Longrightarrow>
     try_block P handler sc req res w
       = (\<lparr>rejected = Some err, reply = res1, handler_called = True\<rparr>, w1)"
  by (simp add: try_block_def)

lemma try_block_response:
  "cache_check P sc req res w = (False, res1, w1) \<Longrightarrow>
   expressToWebRequest P w1 req = Inr webRequest \<Longrightarrow>
   handler webRequest = Inr resp \<Longrightarrow>
   arrayBuffer resp = Inr bodyBuf \<Longrightarrow>
     snd (try_block P handler sc req res w)
       = cache_write P sc req resp bodyBuf (collect_headers (response_headers resp) []) w1
     \<and> handler_called (fst (try_block P handler sc req res w))"
  by (simp add: try_block_def split: prod.splits)

text \<open>
  C3 (as amended). For a request whose path starts with a slash, the store after one
  call of the adapter is the store before it, with the envelope of the handler's response
  written under the key of the request for the resolved TTL, exactly when the method is
  \<^verbatim>\<open>GET\<close>, the route is not in the no-cache set, the request object could be built, the
  handler was called and returned a response whose status is in [200,300) and whose body
  could be read and is not empty, a store client with a connection exists, and the
  transport answers; in every other case the store is unchanged.
\<close>

theorem cache_written_exactly_when:
  assumes slash: "prefix ''/'' (path req)"
  shows "db (snd (adaptEdgeHandler P handler routePath req res w)) =
    (case expressToWebRequest P w req of
       Inl e \<Rightarrow> db w
     | Inr webRequest \<Rightarrow>
         (case handler webRequest of
            Inl e \<Rightarrow> db w
          | Inr resp \<Rightarrow>
              (case arrayBuffer resp of
                 Inl e \<Rightarrow> db w
               | Inr bodyBuf \<Rightarrow>
                   if req_method req = ''GET'' \<and> routePath \<notin> set NO_CACHE
                      \<and> handler_called (fst (adaptEdgeHandler P handler routePath req res w))
                      \<and> 200 \<le> status resp \<and> status resp < 300 \<and> bodyBuf \<noteq> []
                      \<and> (case fst (getCacheRedis P w) of
                            None \<Rightarrow> False
                          | Some r \<Rightarrow> this_client r \<noteq> None)
                      \<and> transport_up w
                   then (db w)(cacheKey req \<mapsto>
                          (JSON_stringify P (envelope P (status resp)
                              (collect_headers (response_headers resp) []) bodyBuf),
                           Some (clock w + policy_ttl (path req))))
                   else db w)))"
proof -
  let ?sc = "routePath \<notin> set NO_CACHE"
  let ?A = "adaptEdgeHandler P handler routePath req res w"
  obtain hit res1 w1 where cc: "cache_check P ?sc req res w = (hit, res1, w1)"
    by (cases "cache_check P ?sc req res w")
  obtain r0 w0 where g: "getCacheRedis P w = (r0, w0)" by (cases "getCacheRedis P w")
  have w1: "w1 = (if req_method req = ''GET'' \<and> ?sc then w0 else w)"
    using cache_check_world [OF cc] g by simp
  have keep0: "db w0 = db w" "transport_up w0 = transport_up w" "clock w0 = clock w"
    "PORT w0 = PORT w"
    using getCacheRedis_keeps [OF g] by simp_all
  have keep: "db w1 = db w" "transport_up w1 = transport_up w" "clock w1 = clock w"
    "PORT w1 = PORT w"
    using w1 keep0 by (simp_all split: if_splits)
  have req1: "expressToWebRequest P w1 req = expressToWebRequest P w req"
    using keep(4) by (rule expressToWebRequest_PORT)
  have world: "snd ?A = snd (try_block P handler ?sc req res w)" by (rule adapt_world)
  have called: "handler_called (fst ?A)
                  = handler_called (fst (try_block P handler ?sc req res w))"
    by (rule adapt_called)
  show ?thesis
  proof (cases hit)
    case True
    then have "try_block P handler ?sc req res w
                 = (\<lparr>rejected = None, reply = res1, handler_called = False\<rparr>, w1)"
      using cc try_block_hit by simp
    then show ?thesis using world called keep(1) by (simp split: sum.splits)
  next
    case False
    have miss: "cache_check P ?sc req res w = (False, res1, w1)" using cc False by simp
    show ?thesis
    proof (cases "expressToWebRequest P w req")
      case (Inl err)
      then have "try_block P handler ?sc req res w
                   = (\<lparr>rejected = Some err, reply = res1, handler_called = False\<rparr>, w1)"
        using try_block_no_request [OF miss] req1 by simp
      then show ?thesis using world keep(1) Inl by simp
    next
      case (Inr webRequest)
      then have rq: "expressToWebRequest P w1 req = Inr webRequest" using req1 by simp
      show ?thesis
      proof (cases "handler webRequest")
        case (Inl err)
        then have "try_block P handler ?sc req res w
                     = (\<lparr>rejected = Some err, reply = res1, handler_called = True\<rparr>, w1)"
          using try_block_throw [where handler = handler, OF miss rq] by simp
        then show ?thesis using world keep(1) Inl Inr by simp
      next
        case resp: (Inr resp)
        show ?thesis
        proof (cases "arrayBuffer resp")
          case (Inl err)
          then have "try_block P handler ?sc req res w
                       = (\<lparr>rejected = Some err, reply = res1, handler_called = True\<rparr>, w1)"
            using try_block_no_body [where handler = handler, OF miss rq resp] by simp
          then show ?thesis using world keep(1) Inl Inr resp by simp
        next
          case body: (Inr bodyBuf)
          let ?hs = "collect_headers (response_headers resp) []"
          let ?text = "JSON_stringify P (envelope P (status resp) ?hs bodyBuf)"
          have tb: "snd (try_block P handler ?sc req res w)
                      = cache_write P ?sc req resp bodyBuf ?hs w1"
            "handler_called (fst (try_block P handler ?sc req res w))"
            using try_block_response [where handler = handler, OF miss rq resp body]
            by simp_all
          show ?thesis
          proof (cases "req_method req = ''GET'' \<and> ?sc \<and> 200 \<le> status resp
                          \<and> status resp < 300 \<and> bodyBuf \<noteq> []")
            case False
            then have "cache_write P ?sc req resp bodyBuf ?hs w1 = w1"
              by (auto simp: cache_write_def)
            then show ?thesis using world tb keep(1) Inr resp body False by auto
          next
            case True
            then have w10: "w1 = w0" using w1 by simp
            have g1: "getCacheRedis P w1 = (r0, w1)"
              using getCacheRedis_again [OF g] w10 by simp
            have ttl: "getCacheTTL (path req) = Seconds (policy_ttl (path req))"
              using slash by (rule getCacheTTL_request_path)
            have pos: "0 < policy_ttl (path req)" by (rule policy_ttl_positive)
            show ?thesis
            proof (cases r0)
              case None
              then have "cache_write P ?sc req resp bodyBuf ?hs w1 = w1"
                using True g1 by (simp add: cache_write_def)
              then show ?thesis using world tb keep(1) Inr resp body None g by simp
            next
              case (Some r)
              have cw: "cache_write P ?sc req resp bodyBuf ?hs w1
                          = snd (Redis_set P r w1 (cacheKey req) (JStr ?text)
                                   (Some \<lparr>ex = Some (Seconds (policy_ttl (path req)))\<rparr>))"
                using True g1 Some ttl by (simp add: cache_write_def)
              show ?thesis
              proof (cases "this_client r \<noteq> None \<and> transport_up w")
                case T: True
                then obtain c where c: "this_client r = Some c" by auto
                have "snd (Redis_set P r w1 (cacheKey req) (JStr ?text)
                             (Some \<lparr>ex = Some (Seconds (policy_ttl (path req)))\<rparr>))
                        = w1\<lparr>db := (db w1)(cacheKey req \<mapsto>
                                       (?text, Some (clock w1 + policy_ttl (path req))))\<rparr>"
                  using Redis_set_stores [OF c _ pos] T keep(2) by simp
                then show ?thesis
                  using world tb cw keep Inr resp body True T Some g called by simp
              next
                case F: False
                then have "snd (Redis_set P r w1 (cacheKey req) (JStr ?text)
                             (Some \<lparr>ex = Some (Seconds (policy_ttl (path req)))\<rparr>)) = w1"
                  using Redis_set_keeps [of r w1] keep(2) by auto
                then show ?thesis
                  using world tb cw keep(1) Inr resp body F Some g by auto
              qed
            qed
          qed
        qed
      qed
    qed
  qed
qed

lemmas adapter_defs =
  adaptEdgeHandler_def try_block_def cache_check_def cache_write_def send_response_def
  replay_def parse_if_string_def getCacheRedis_def Redis_get_def Redis_set_def
  ioredis_get_def ioredis_set_def live_def cacheKey_def envelope_def
  res_status_def res_setHeader_def res_send_def res_end_def res_json_def error_body_def
  expressToWebRequest_def server_PORT_def toLowerCase_def lower_char_def

lemmas sample_defs =
  sample_platform_def sample_world_def sample_req_def bad_host_req_def fresh_res_def
  sample_response_def sample_envelope_def sample_envelope_text_def cookie_envelope_def
  cookie_envelope_text_def corrupt_envelope_def corrupt_envelope_text_def

lemma earthquakes_cached: "''/api/earthquakes'' \<notin> set NO_CACHE"
  by (simp add: NO_CACHE_def)

lemma earthquakes_ttl: "getCacheTTL ''/api/earthquakes'' = Seconds 60"
  by (simp add: getCacheTTL_def CACHE_TTLS_at_def CACHE_TTLS_def)

lemma earthquakes_policy: "policy_ttl ''/api/earthquakes'' = 60"
  by (simp add: policy_ttl_def CACHE_TTLS_def)

lemma sample_request_built:
  "expressToWebRequest sample_platform sample_world sample_req
     = Inr \<lparr>url = ''http://localhost:3000/api/earthquakes?min=5'', request_method = ''GET'',
            request_headers = Map.empty, request_body = None\<rparr>"
  by (simp add: expressToWebRequest_def sample_defs)

lemma bad_host_request_throws:
  "expressToWebRequest sample_platform sample_world bad_host_req = Inl (ErrorObj ''Invalid URL'')"
  by (simp add: expressToWebRequest_def sample_defs)

theorem cache_written_exactly_when_witness:
  "prefix ''/'' (path sample_req) \<and>
   db (snd (adaptEdgeHandler sample_platform (\<lambda>r. Inr sample_response) ''/api/earthquakes''
              sample_req fresh_res sample_world))
     = [''apicache:/api/earthquakes?min=5'' \<mapsto> (sample_envelope_text, Some 1060)] \<and>
   db (snd (adaptEdgeHandler sample_platform (\<lambda>r. Inr (sample_response\<lparr>status := 404\<rparr>))
              ''/api/earthquakes'' sample_req fresh_res sample_world))
     = Map.empty \<and>
   db (snd (adaptEdgeHandler sample_platform (\<lambda>r. Inr sample_response) ''/api/earthquakes''
              bad_host_req fresh_res sample_world))
     = Map.empty \<and>
   fst (adaptEdgeHandler sample_platform (\<lambda>r. Inr sample_response) ''/api/earthquakes''
              bad_host_req fresh_res sample_world)
     = \<lparr>rejected = None,
        reply = \<lparr>statusCode = JNum 500, headers = [],
                  sent = Some (Json (JObj [(''error'', JStr ''Internal server error''),
                                           (''details'', JStr ''Invalid URL'')])),
                  headersSent = True\<rparr>,
        handler_called = False\<rparr>"
proof -
  have s: "prefix ''/'' (path sample_req)" by (simp add: sample_req_def)
  have s': "prefix ''/'' (path bad_host_req)" by (simp add: sample_req_def bad_host_req_def)
  have a: "db (snd (adaptEdgeHandler sample_platform (\<lambda>r. Inr sample_response)
              ''/api/earthquakes'' sample_req fresh_res sample_world))
     = [''apicache:/api/earthquakes?min=5'' \<mapsto> (sample_envelope_text, Some 1060)]"
    using cache_written_exactly_when [OF s, where P = sample_platform
        and handler = "\<lambda>r. Inr sample_response" and routePath = "''/api/earthquakes''"
        and res = fresh_res and w = sample_world]
    by (simp add: adapter_defs sample_defs earthquakes_cached earthquakes_policy
        earthquakes_ttl)
  have b: "db (snd (adaptEdgeHandler sample_platform
              (\<lambda>r. Inr (sample_response\<lparr>status := 404\<rparr>))
              ''/api/earthquakes'' sample_req fresh_res sample_world))
     = Map.empty"
    using cache_written_exactly_when [OF s, where P = sample_platform
        and handler = "\<lambda>r. Inr (sample_response\<lparr>status := 404\<rparr>)"
        and routePath = "''/api/earthquakes''"
        and res = fresh_res and w = sample_world]
    by (simp add: sample_request_built) (simp add: sample_defs)
  have c: "db (snd (adaptEdgeHandler sample_platform (\<lambda>r. Inr sample_response)
              ''/api/earthquakes'' bad_host_req fresh_res sample_world))
     = Map.empty"
    using cache_written_exactly_when [OF s', where P = sample_platform
        and handler = "\<lambda>r. Inr sample_response" and routePath = "''/api/earthquakes''"
        and res = fresh_res and w = sample_world]
    by (simp add: bad_host_request_throws) (simp add: sample_defs)
  have d: "fst (adaptEdgeHandler sample_platform (\<lambda>r. Inr sample_response) ''/api/earthquakes''
              bad_host_req fresh_res sample_world)
     = \<lparr>rejected = None,
        reply = \<lparr>statusCode = JNum 500, headers = [],
                  sent = Some (Json (JObj [(''error'', JStr ''Internal server error''),
                                           (''details'', JStr ''Invalid URL'')])),
                  headersSent = True\<rparr>,
        handler_called = False\<rparr>"
    by (simp add: adapter_defs sample_defs earthquakes_cached)
  show ?thesis using s a b c d by simp
qed

text \<open>
  The claim without the condition on the store fails: with the transport down, a
  \<^verbatim>\<open>GET\<close> on a cached route whose handler returns status 200 and a body of two bytes is
  answered from the handler and nothing is written.
\<close>

theorem eligible_response_not_written:
  "req_method sample_req = ''GET'' \<and>
   ''/api/earthquakes'' \<notin> set NO_CACHE \<and>
   200 \<le> status sample_response \<and> status sample_response < 300 \<and>
   arrayBuffer sample_response = Inr [0x6F, 0x6B] \<and>
   cacheRedis (sample_world\<lparr>transport_up := False\<rparr>)
     = Some \<lparr>this_client = Some (IORedis ''redis://cache:6379'')\<rparr> \<and>
   fst (adaptEdgeHandler sample_platform (\<lambda>r. Inr sample_response) ''/api/earthquakes''
          sample_req fresh_res (sample_world\<lparr>transport_up := False\<rparr>))
     = \<lparr>rejected = None,
        reply = \<lparr>statusCode = JNum 200,
                  headers = [(''content-type'', JStr ''text/plain''),
                             (''x-cache'', JStr ''MISS'')],
                  sent = Some (Buf [0x6F, 0x6B]), headersSent = True\<rparr>,
        handler_called = True\<rparr> \<and>
   db (snd (adaptEdgeHandler sample_platform (\<lambda>r. Inr sample_response) ''/api/earthquakes''
          sample_req fresh_res (sample_world\<lparr>transport_up := False\<rparr>)))
      ''apicache:/api/earthquakes?min=5'' = None"
  by (simp add: adapter_defs sample_defs earthquakes_cached earthquakes_ttl)

section \<open>The caching adapter: replay of a stored response\<close>


lemma getCacheRedis_memo: "cacheRedis w = Some r \<Longrightarrow> getCacheRedis P w = (Some r, w)"
  by (simp add: getCacheRedis_def)


subsection \<open>What the stored headers are\<close>










subsection \<open>Store, then look up\<close>





section \<open>The caching adapter: failures\<close>

lemma handler_error_replied:
  assumes "cache_check P (routePath \<notin> set NO_CACHE) req res w = (False, res1, w1)"
    and "expressToWebRequest P w1 req = Inr webRequest"
    and "handler webRequest = Inl (ErrorObj m)"
    and "\<not> headersSent res1"
  shows "fst (adaptEdgeHandler P handler routePath req res w)
           = \<lparr>rejected = None,
              reply = res_json (error_body (Some (JStr m))) (res_status (JNum 500) res1),
              handler_called = True\<rparr>"
  using try_block_throw [where handler = handler, OF assms(1,2,3)] assms(4)
  by (simp add: adaptEdgeHandler_def)

lemma handler_undefined_escapes:
  assumes "cache_check P (routePath \<notin> set NO_CACHE) req res w = (False, res1, w1)"
    and "expressToWebRequest P w1 req = Inr webRequest"
    and "handler webRequest = Inl (Thrown None)"
  shows "fst (adaptEdgeHandler P handler routePath req res w)
           = \<lparr>rejected = Some (ErrorObj ''Cannot read properties of undefined''),
              reply = res1, handler_called = True\<rparr>"
  using try_block_throw [where handler = handler, OF assms(1,2,3)]
  by (simp add: adaptEdgeHandler_def)

text \<open>
  C9. A handler that rejects with \<^verbatim>\<open>undefined\<close>: the \<^verbatim>\<open>catch\<close> block of the adapter
  reads \<^verbatim>\<open>err.message\<close> for its log line, which throws a \<^verbatim>\<open>TypeError\<close>; the adapter's
  promise is rejected with it and nothing is sent on the response object.
\<close>

theorem handler_rejects_undefined:
  "adaptEdgeHandler sample_platform (\<lambda>r. Inl (Thrown None)) ''/api/earthquakes''
      sample_req fresh_res sample_world
   = (\<lparr>rejected = Some (ErrorObj ''Cannot read properties of undefined''),
       reply = fresh_res, handler_called = True\<rparr>, sample_world)"
  by (simp add: adapter_defs sample_defs earthquakes_cached)

text \<open>A stored value that is not JSON leaves the response object untouched.\<close>

lemma unparsable_entry_is_miss:
  assumes "req_method req = ''GET''" "routePath \<notin> set NO_CACHE"
    and "cacheRedis w = Some r" "this_client r = Some c" "transport_up w"
    and "live w (cacheKey req) = Some raw" "JSON_parse P raw = None"
  shows "cache_check P (routePath \<notin> set NO_CACHE) req res w = (False, res, w)"
proof -
  have g: "getCacheRedis P w = (Some r, w)" using assms(3) by (rule getCacheRedis_memo)
  have get: "Redis_get P r w (cacheKey req) = Inr (JStr raw)"
    using assms(4-7) by (simp add: Redis_get_def ioredis_get_def)
  have "replay P (JStr raw) res = (Some (ErrorObj ''Unexpected token''), res)"
    using assms(7) by (simp add: replay_def parse_if_string_def)
  then show ?thesis
    using assms(1,2) g get by (simp add: cache_check_def)
qed

text \<open>
  C8. The store holds, under the key of the request, an envelope whose body field is a
  number. The adapter sets the status and the headers of the envelope on the response
  object before \<^verbatim>\<open>Buffer.from\<close> throws; it then calls the handler and replies with the
  handler's status and body, and with the header \<^verbatim>\<open>x-stale\<close> of the corrupt entry next to
  the handler's own header.
\<close>

theorem corrupt_entry_headers_leak:
  "fst (adaptEdgeHandler sample_platform (\<lambda>r. Inr plain_response) ''/api/earthquakes''
      sample_req fresh_res corrupt_world)
   = \<lparr>rejected = None,
      reply = \<lparr>statusCode = JNum 200,
                headers = [(''x-stale'', JStr ''1''), (''x-cache'', JStr ''MISS''),
                           (''content-type'', JStr ''text/plain'')],
                sent = Some (Buf [0x6F, 0x6B]), headersSent = True\<rparr>,
      handler_called = True\<rparr>"
  by (simp add: adapter_defs sample_defs earthquakes_cached corrupt_world_def plain_response_def)

section \<open>The relay: forwarding\<close>

lemmas relay_defs =
  relay_init_def on_connection_def connectUpstream_def upstream_live_def
  on_client_close_def on_open_def on_message_def on_close_def

lemma run_append: "run P k (es @ es') st = run P k es' (run P k es st)"
  by (induction es arbitrary: st) auto

lemma broadcast_fields:
  "client_state (broadcast m cs st) = client_state st \<and>
   clients (broadcast m cs st) = clients st \<and>
   upstreamSocket (broadcast m cs st) = upstreamSocket st \<and>
   sockets_created (broadcast m cs st) = sockets_created st \<and>
   messageCount (broadcast m cs st) = messageCount st \<and>
   timers (broadcast m cs st) = timers st \<and>
   now (broadcast m cs st) = now st \<and>
   upstream_state (broadcast m cs st) = upstream_state st \<and>
   upstream_sent (broadcast m cs st) = upstream_sent st"
  by (induction cs arbitrary: st) auto

lemma broadcast_absent:
  "c \<notin> set cs \<Longrightarrow> client_sent (broadcast m cs st) c = client_sent st c"
  by (induction cs arbitrary: st) auto

lemma broadcast_sent:
  "distinct cs \<Longrightarrow>
     client_sent (broadcast m cs st) c =
       (if c \<in> set cs \<and> client_state st c = OPEN then client_sent st c @ [m]
        else client_sent st c)"
proof (induction cs arbitrary: st)
  case Nil
  then show ?case by simp
next
  case (Cons a cs)
  then show ?case by (auto simp: broadcast_absent)
qed

lemma relay_inv_init: "relay_inv relay_init"
  by (simp add: relay_inv_def relay_init_def)

lemma relay_inv_step: "relay_inv st \<Longrightarrow> relay_inv (step P k e st)"
  by (cases e)
    (auto simp: relay_inv_def on_connection_def connectUpstream_def upstream_live_def
      on_client_close_def
      on_open_def on_message_def on_close_def broadcast_fields distinct_removeAll
      split: option.splits list.splits if_splits)

lemma relay_inv_run: "relay_inv st \<Longrightarrow> relay_inv (run P k es st)"
  by (induction es arbitrary: st) (auto simp: relay_inv_step)

lemma message_step:
  assumes "relay_inv st" "upstreamSocket st = Some s"
  shows "client_sent (step P k (UpstreamMessage s d) st) c =
           (if c \<in> set (clients st) \<and> client_state st c = OPEN
            then client_sent st c @ [Buffer_toString P d] else client_sent st c)"
    and "clients (step P k (UpstreamMessage s d) st) = clients st"
    and "client_state (step P k (UpstreamMessage s d) st) = client_state st"
    and "upstreamSocket (step P k (UpstreamMessage s d) st) = upstreamSocket st"
    and "messageCount (step P k (UpstreamMessage s d) st) = Suc (messageCount st)"
  using assms
  by (auto simp: relay_inv_def on_message_def broadcast_sent broadcast_fields)

lemma messages_in_order:
  assumes "relay_inv st" "upstreamSocket st = Some s"
    and "c \<in> set (clients st)" "client_state st c = OPEN"
  shows "client_sent (run P k (map (UpstreamMessage s) ds) st) c
           = client_sent st c @ map (Buffer_toString P) ds"
  using assms
proof (induction ds arbitrary: st)
  case Nil
  then show ?case by simp
next
  case (Cons d ds)
  let ?st = "step P k (UpstreamMessage s d) st"
  have inv: "relay_inv ?st" using Cons.prems(1) by (rule relay_inv_step)
  have "client_sent (run P k (map (UpstreamMessage s) ds) ?st) c
          = client_sent ?st c @ map (Buffer_toString P) ds"
    using Cons.IH [OF inv] message_step(2-4) [OF Cons.prems(1,2)] Cons.prems(2-4) by simp
  then show ?case
    using message_step(1) [OF Cons.prems(1,2)] Cons.prems(3,4) by simp
qed

lemma absent_step:
  assumes "c \<notin> set (clients st)" "e \<noteq> Connection c"
  shows "c \<notin> set (clients (step P k e st)) \<and> client_sent (step P k e st) c = client_sent st c"
  using assms
  by (cases e)
    (auto simp: on_connection_def connectUpstream_def upstream_live_def on_client_close_def
      on_open_def on_message_def on_close_def broadcast_fields broadcast_absent
      split: option.splits list.splits if_splits)

lemma absent_run:
  assumes "c \<notin> set (clients st)" "Connection c \<notin> set es"
  shows "client_sent (run P k es st) c = client_sent st c"
  using assms
proof (induction es arbitrary: st)
  case Nil
  then show ?case by simp
next
  case (Cons e es)
  then have ne: "e \<noteq> Connection c" by auto
  have "Connection c \<notin> set es" using Cons.prems(2) by simp
  then show ?case
    using Cons.IH [of "step P k e st"] absent_step [OF Cons.prems(1) ne] by simp
qed

lemma close_removes:
  "c \<notin> set (clients (step P k (ClientClose c) st)) \<and>
   client_sent (step P k (ClientClose c) st) c = client_sent st c"
  by (simp add: on_client_close_def)

lemma close_removed_for_good:
  assumes "Connection c \<notin> set es"
  shows "c \<notin> set (clients (run P k es (step P k (ClientClose c) st)))"
  using assms
proof -
  have gone: "c \<notin> set (clients (step P k (ClientClose c) st))"
    using close_removes by simp
  have "\<And>st0. c \<notin> set (clients st0) \<Longrightarrow> Connection c \<notin> set es
          \<Longrightarrow> c \<notin> set (clients (run P k es st0))"
  proof (induction es)
    case Nil
    then show ?case by simp
  next
    case (Cons e es)
    then have ne: "e \<noteq> Connection c" by auto
    have "c \<notin> set (clients (step P k e st0))"
      using absent_step [OF Cons.prems(1) ne] by simp
    then show ?case using Cons.IH Cons.prems(2) by simp
  qed
  then show ?thesis using gone assms by blast
qed

lemma message_payloads:
  assumes "relay_inv st" "upstreamSocket st = Some s"
    and "frame_payload (Buffer_toString P d) = d"
    and "c \<in> set (clients st)" "client_state st c = OPEN"
  shows "map frame_payload (client_sent (step P k (UpstreamMessage s d) st) c)
           = map frame_payload (client_sent st c) @ [d]"
  using message_step(1) [OF assms(1,2)] assms(3-5) by simp

text \<open>
  C4 (as amended). In every state the relay reaches, a message from the current upstream
  socket is sent, as the text \<^verbatim>\<open>data.toString()\<close> and nothing else, to exactly the
  subscribers in the set whose socket is \<open>OPEN\<close>; every other socket gets nothing, and the
  delivery to one subscriber does not depend on the state of another. The frame carries
  the bytes of the message whenever decoding the message and encoding the text gives the
  bytes back, that is, whenever the message is UTF-8. A subscriber that stays in the set
  and open receives the messages in the order of their arrival. The \<^verbatim>\<open>close\<close> event of a
  subscriber removes it from the set; it stays out of the set and nothing more is sent to
  it, whatever happens next, unless it connects again.
\<close>

theorem upstream_messages_forwarded:
  assumes "st = run P k es relay_init" "upstreamSocket st = Some s"
  shows "(\<forall>d c. client_sent (step P k (UpstreamMessage s d) st) c =
            (if c \<in> set (clients st) \<and> client_state st c = OPEN
             then client_sent st c @ [Buffer_toString P d] else client_sent st c)) \<and>
         (\<forall>d c. frame_payload (Buffer_toString P d) = d \<and>
                 c \<in> set (clients st) \<and> client_state st c = OPEN \<longrightarrow>
            map frame_payload (client_sent (step P k (UpstreamMessage s d) st) c)
              = map frame_payload (client_sent st c) @ [d]) \<and>
         (\<forall>ds c. c \<in> set (clients st) \<and> client_state st c = OPEN \<longrightarrow>
            client_sent (run P k (map (UpstreamMessage s) ds) st) c
              = client_sent st c @ map (Buffer_toString P) ds) \<and>
         (\<forall>c. c \<notin> set (clients (step P k (ClientClose c) st))) \<and>
         (\<forall>c es'. Connection c \<notin> set es' \<longrightarrow>
            c \<notin> set (clients (run P k es' (step P k (ClientClose c) st))) \<and>
            client_sent (run P k es' (step P k (ClientClose c) st)) c = client_sent st c)"
proof -
  have inv: "relay_inv st"
    using assms(1) relay_inv_run [OF relay_inv_init] by simp
  have A: "\<forall>d c. client_sent (step P k (UpstreamMessage s d) st) c =
            (if c \<in> set (clients st) \<and> client_state st c = OPEN
             then client_sent st c @ [Buffer_toString P d] else client_sent st c)"
    using message_step(1) [OF inv assms(2)] by blast
  have B: "\<forall>d c. frame_payload (Buffer_toString P d) = d \<and>
                 c \<in> set (clients st) \<and> client_state st c = OPEN \<longrightarrow>
            map frame_payload (client_sent (step P k (UpstreamMessage s d) st) c)
              = map frame_payload (client_sent st c) @ [d]"
    using message_payloads [OF inv assms(2)] by blast
  have C: "\<forall>ds c. c \<in> set (clients st) \<and> client_state st c = OPEN \<longrightarrow>
            client_sent (run P k (map (UpstreamMessage s) ds) st) c
              = client_sent st c @ map (Buffer_toString P) ds"
    using messages_in_order [OF inv assms(2)] by blast
  have D: "\<forall>c. c \<notin> set (clients (step P k (ClientClose c) st))"
    using close_removes by blast
  have E: "\<forall>c es'. Connection c \<notin> set es' \<longrightarrow>
            c \<notin> set (clients (run P k es' (step P k (ClientClose c) st))) \<and>
            client_sent (run P k es' (step P k (ClientClose c) st)) c = client_sent st c"
  proof (intro allI impI)
    fix c es'
    assume nc: "Connection c \<notin> set es'"
    have "client_sent (run P k es' (step P k (ClientClose c) st)) c
            = client_sent (step P k (ClientClose c) st) c"
      using absent_run [OF _ nc] close_removes by blast
    then show "c \<notin> set (clients (run P k es' (step P k (ClientClose c) st))) \<and>
            client_sent (run P k es' (step P k (ClientClose c) st)) c = client_sent st c"
      using close_removed_for_good [OF nc] close_removes by simp
  qed
  show ?thesis by (rule conjI [OF A conjI [OF B conjI [OF C conjI [OF D E]]]])
qed

theorem upstream_messages_forwarded_witness:
  "upstreamSocket (run sample_platform ''key''
      [Connection 1, Connection 2, UpstreamOpen 0, ClientClosing 2] relay_init) = Some 0 \<and>
   client_sent (run sample_platform ''key''
      (map (UpstreamMessage 0) [[0x68, 0x69], [0x79, 0x6F]])
      (run sample_platform ''key''
         [Connection 1, Connection 2, UpstreamOpen 0, ClientClosing 2] relay_init)) 1
     = [''hi'', ''yo''] \<and>
   map frame_payload (client_sent (step sample_platform ''key'' (UpstreamMessage 0 [0x68, 0x69])
      (run sample_platform ''key''
         [Connection 1, Connection 2, UpstreamOpen 0, ClientClosing 2] relay_init)) 1)
     = [[0x68, 0x69]] \<and>
   client_sent (step sample_platform ''key'' (UpstreamMessage 0 [0x68, 0x69])
      (run sample_platform ''key''
         [Connection 1, Connection 2, UpstreamOpen 0, ClientClosing 2] relay_init)) 2 = [] \<and>
   1 \<notin> set (clients (step sample_platform ''key'' (ClientClose 1)
         (run sample_platform ''key''
            [Connection 1, Connection 2, UpstreamOpen 0, ClientClosing 2] relay_init))) \<and>
   client_sent (run sample_platform ''key'' [UpstreamMessage 0 [0x68, 0x69]]
      (step sample_platform ''key'' (ClientClose 1)
         (run sample_platform ''key''
            [Connection 1, Connection 2, UpstreamOpen 0, ClientClosing 2] relay_init))) 1 = []"
proof -
  let ?P = sample_platform
  let ?st = "run ?P ''key'' [Connection 1, Connection 2, UpstreamOpen 0, ClientClosing 2] relay_init"
  have up: "upstreamSocket ?st = Some 0" by (simp add: relay_defs)
  have c1: "1 \<in> set (clients ?st) \<and> client_state ?st 1 = OPEN" by (simp add: relay_defs)
  have c2: "client_state ?st 2 \<noteq> OPEN" by (simp add: relay_defs)
  have s1: "client_sent ?st 1 = []" by (simp add: relay_defs)
  have s2: "client_sent ?st 2 = []" by (simp add: relay_defs)
  have texts: "map (Buffer_toString ?P) [[0x68, 0x69], [0x79, 0x6F]] = [''hi'', ''yo'']"
    by (simp add: sample_platform_def)
  have law: "frame_payload (Buffer_toString ?P [0x68, 0x69]) = [0x68, 0x69]"
    by (simp add: sample_platform_def frame_payload_def)
  have nc: "Connection 1 \<notin> set [UpstreamMessage 0 [0x68, 0x69]]" by simp
  note T = upstream_messages_forwarded [OF refl up]
  have a: "client_sent (run ?P ''key'' (map (UpstreamMessage 0) [[0x68, 0x69], [0x79, 0x6F]]) ?st) 1
             = client_sent ?st 1 @ map (Buffer_toString ?P) [[0x68, 0x69], [0x79, 0x6F]]"
    using T c1 by blast
  have p: "map frame_payload (client_sent (step ?P ''key'' (UpstreamMessage 0 [0x68, 0x69]) ?st) 1)
             = map frame_payload (client_sent ?st 1) @ [[0x68, 0x69]]"
    using T c1 law by blast
  have b: "client_sent (step ?P ''key'' (UpstreamMessage 0 [0x68, 0x69]) ?st) 2
             = (if 2 \<in> set (clients ?st) \<and> client_state ?st 2 = OPEN
                then client_sent ?st 2 @ [Buffer_toString ?P [0x68, 0x69]]
                else client_sent ?st 2)"
    using T by blast
  have r: "1 \<notin> set (clients (step ?P ''key'' (ClientClose 1) ?st))"
    using T by blast
  have c: "client_sent (run ?P ''key'' [UpstreamMessage 0 [0x68, 0x69]]
             (step ?P ''key'' (ClientClose 1) ?st)) 1 = client_sent ?st 1"
    using T nc by blast
  show ?thesis
    using up a p b r c c2 s1 s2 texts
    by (simp only: append_Nil list.map if_False simp_thms)
qed

text \<open>
  A message that is not UTF-8 is not forwarded verbatim: the byte \<^verbatim>\<open>ff\<close> reaches the
  open subscriber as the three bytes of the replacement character.
\<close>

theorem invalid_utf8_not_verbatim:
  "upstreamSocket (run sample_platform ''key'' [Connection 1, UpstreamOpen 0] relay_init)
     = Some 0 \<and>
   client_state (run sample_platform ''key'' [Connection 1, UpstreamOpen 0] relay_init) 1
     = OPEN \<and>
   map frame_payload
     (client_sent (step sample_platform ''key'' (UpstreamMessage 0 [0xFF])
        (run sample_platform ''key'' [Connection 1, UpstreamOpen 0] relay_init)) 1)
     = [[0xEF, 0xBF, 0xBD]]"
  by (simp add: relay_defs sample_platform_def frame_payload_def)

section \<open>The relay: reconnection\<close>















end
